theory Spec2Isabelle
  imports Main "HOL-Library.Word"
begin

unbundle bit_operations_syntax

section \<open>Bytes, typed arrays and thrown values\<close>

type_synonym byte = "8 word"
type_synonym bytes = "byte list"

text \<open>
  A JavaScript string is a sequence of UTF-16 code units. Passwords are kept in that
  form, because the key derivation first runs them through \<^verbatim>\<open>TextEncoder\<close>.
  File identifiers, content identifiers and messages stay plain strings.
\<close>

type_synonym js_string = "16 word list"

text \<open>
  Whatever a \<^verbatim>\<open>throw\<close> can carry. \<open>JsError\<close> stands for every object that is
  \<^verbatim>\<open>instanceof Error\<close>: its \<^verbatim>\<open>name\<close>, its \<^verbatim>\<open>message\<close> and the optional
  \<^verbatim>\<open>code\<close> of the \<^verbatim>\<open>ZKFileError\<close> hierarchy. \<open>JsNonError\<close> is any other thrown
  value.
\<close>

datatype thrown =
    JsError (err_name: string) (err_message: string) (err_code: "string option")
  | JsNonError

fun instanceof_Error :: "thrown \<Rightarrow> bool" where
  "instanceof_Error (JsError n m c) = True"
| "instanceof_Error JsNonError = False"

text \<open>The error classes of \<^verbatim>\<open>errors/index.ts\<close>: each constructor sets its own name.\<close>

definition ZKFileError :: "string \<Rightarrow> string option \<Rightarrow> thrown" where
  "ZKFileError msg code = JsError ''ZKFileError'' msg code"

definition EncryptionError :: "string \<Rightarrow> string option \<Rightarrow> thrown" where
  "EncryptionError msg code = JsError ''EncryptionError'' msg code"

definition StorageError :: "string \<Rightarrow> string option \<Rightarrow> thrown" where
  "StorageError msg code = JsError ''StorageError'' msg code"

definition SolanaError :: "string \<Rightarrow> string option \<Rightarrow> thrown" where
  "SolanaError msg code = JsError ''SolanaError'' msg code"

definition ValidationError :: "string \<Rightarrow> string option \<Rightarrow> thrown" where
  "ValidationError msg code = JsError ''ValidationError'' msg code"

text \<open>
  The text every \<^verbatim>\<open>catch\<close> block of the repository builds:
  \<^verbatim>\<open>error instanceof Error ? error.message : fallback\<close>.
\<close>

definition message_or :: "thrown \<Rightarrow> string \<Rightarrow> string" where
  "message_or error fallback = (if instanceof_Error error then err_message error else fallback)"

text \<open>
  \<^verbatim>\<open>Uint8Array.prototype.slice(begin, end)\<close> for non-negative arguments: both ends are
  clamped to the length, and an empty range gives an empty array. With one argument the
  end is the length.
\<close>

definition uint8_slice :: "bytes \<Rightarrow> nat \<Rightarrow> nat \<Rightarrow> bytes" where
  "uint8_slice xs begin fin =
     (let len = length xs; k = min begin len; final = min fin len
      in take (final - k) (drop k xs))"

definition uint8_slice_from :: "bytes \<Rightarrow> nat \<Rightarrow> bytes" where
  "uint8_slice_from xs begin = uint8_slice xs begin (length xs)"

text \<open>
  \<^verbatim>\<open>target.set(source, offset)\<close>: a \<^verbatim>\<open>RangeError\<close> when the source does not fit,
  otherwise the bytes from \<open>offset\<close> on are overwritten.
\<close>

definition uint8_set :: "bytes \<Rightarrow> bytes \<Rightarrow> nat \<Rightarrow> thrown + bytes" where
  "uint8_set target source offset =
     (if length source + offset > length target
      then Inl (JsError ''RangeError'' ''offset is out of bounds'' None)
      else Inr (take offset target @ source @ drop (offset + length source) target))"

section \<open>The encrypted container and its framing\<close>

record EncryptedFile =
  iv :: bytes
  salt :: bytes
  ciphertext :: bytes
  authTag :: "bytes option"

definition ALGORITHM :: string where "ALGORITHM = ''AES-GCM''"
definition KEY_LENGTH :: nat where "KEY_LENGTH = 256"
definition IV_LENGTH :: nat where "IV_LENGTH = 12"
definition SALT_LENGTH :: nat where "SALT_LENGTH = 16"
definition PBKDF2_ITERATIONS :: nat where "PBKDF2_ITERATIONS = 100000"
definition TAG_LENGTH :: nat where "TAG_LENGTH = 128"

text \<open>
  \<^verbatim>\<open>combineEncryptedParts\<close>: a zero-filled array of the total length, then three
  \<^verbatim>\<open>set\<close> calls at offsets \<open>0\<close>, \<open>iv.length\<close> and \<open>iv.length + salt.length\<close>.
\<close>

definition combineEncryptedParts :: "EncryptedFile \<Rightarrow> thrown + bytes" where
  "combineEncryptedParts encryptedFile =
     (let combined = replicate (length (iv encryptedFile) + length (salt encryptedFile)
                                 + length (ciphertext encryptedFile)) (0 :: byte)
      in case uint8_set combined (iv encryptedFile) 0 of
           Inl e \<Rightarrow> Inl e
         | Inr c1 \<Rightarrow>
             (case uint8_set c1 (salt encryptedFile) (length (iv encryptedFile)) of
                Inl e \<Rightarrow> Inl e
              | Inr c2 \<Rightarrow>
                  uint8_set c2 (ciphertext encryptedFile)
                    (length (iv encryptedFile) + length (salt encryptedFile))))"

text \<open>
  \<^verbatim>\<open>splitEncryptedParts\<close>: the length check, then three slices. The returned object
  has no \<^verbatim>\<open>authTag\<close> property.
\<close>

definition splitEncryptedParts :: "bytes \<Rightarrow> thrown + EncryptedFile" where
  "splitEncryptedParts combinedData =
     (if length combinedData < IV_LENGTH + SALT_LENGTH
      then Inl (EncryptionError ''Invalid encrypted data: too short''
                  (Some ''INVALID_ENCRYPTED_DATA''))
      else Inr \<lparr> iv = uint8_slice combinedData 0 IV_LENGTH,
                 salt = uint8_slice combinedData IV_LENGTH (IV_LENGTH + SALT_LENGTH),
                 ciphertext = uint8_slice_from combinedData (IV_LENGTH + SALT_LENGTH),
                 authTag = None \<rparr>)"

section \<open>The platform: random source, WebCrypto, reader, network, chain\<close>

text \<open>
  \<^verbatim>\<open>TextEncoder.encode\<close>: UTF-8 of a sequence of UTF-16 code units. A surrogate pair
  becomes one four-byte sequence; a surrogate without its partner is replaced by
  U+FFFD, whose encoding is \<open>EF BF BD\<close>.
\<close>

definition utf8_1 :: "16 word \<Rightarrow> bytes" where
  "utf8_1 u = [ucast u]"

definition utf8_2 :: "16 word \<Rightarrow> bytes" where
  "utf8_2 u = [0xC0 OR ucast (drop_bit 6 u), 0x80 OR ucast (u AND 0x3F)]"

definition utf8_3 :: "16 word \<Rightarrow> bytes" where
  "utf8_3 u = [0xE0 OR ucast (drop_bit 12 u), 0x80 OR ucast (drop_bit 6 u AND 0x3F),
               0x80 OR ucast (u AND 0x3F)]"

definition utf8_4 :: "16 word \<Rightarrow> 16 word \<Rightarrow> bytes" where
  "utf8_4 hi lo =
     (let cp = (0x10000 :: 32 word) + push_bit 10 (ucast (hi AND 0x3FF)) + ucast (lo AND 0x3FF)
      in [0xF0 OR ucast (drop_bit 18 cp), 0x80 OR ucast (drop_bit 12 cp AND 0x3F),
          0x80 OR ucast (drop_bit 6 cp AND 0x3F), 0x80 OR ucast (cp AND 0x3F)])"

definition replacement_utf8 :: bytes where
  "replacement_utf8 = [0xEF, 0xBF, 0xBD]"

definition is_high_surrogate :: "16 word \<Rightarrow> bool" where
  "is_high_surrogate u = (0xD800 \<le> u \<and> u \<le> 0xDBFF)"

definition is_low_surrogate :: "16 word \<Rightarrow> bool" where
  "is_low_surrogate u = (0xDC00 \<le> u \<and> u \<le> 0xDFFF)"

fun TextEncoder_encode :: "js_string \<Rightarrow> bytes" where
  "TextEncoder_encode [] = []"
| "TextEncoder_encode [u] =
     (if u < 0x80 then utf8_1 u
      else if u < 0x800 then utf8_2 u
      else if is_high_surrogate u \<or> is_low_surrogate u then replacement_utf8
      else utf8_3 u)"
| "TextEncoder_encode (u # v # vs) =
     (if u < 0x80 then utf8_1 u @ TextEncoder_encode (v # vs)
      else if u < 0x800 then utf8_2 u @ TextEncoder_encode (v # vs)
      else if is_high_surrogate u then
        (if is_low_surrogate v then utf8_4 u v @ TextEncoder_encode vs
         else replacement_utf8 @ TextEncoder_encode (v # vs))
      else if is_low_surrogate u then replacement_utf8 @ TextEncoder_encode (v # vs)
      else utf8_3 u @ TextEncoder_encode (v # vs))"

text \<open>The parameter objects handed to \<^verbatim>\<open>crypto.subtle\<close>.\<close>

record Pbkdf2Params =
  kdf_name :: string
  kdf_salt :: bytes
  kdf_iterations :: nat
  kdf_hash :: string

record AesKeyGenParams =
  key_name :: string
  key_length :: nat

record AesGcmParams =
  gcm_name :: string
  gcm_iv :: bytes
  gcm_tagLength :: nat

text \<open>
  A \<^verbatim>\<open>File\<close> or \<^verbatim>\<open>Blob\<close>. \<open>blob_readable\<close> is false when the
  \<^verbatim>\<open>FileReader\<close> would report an error.
\<close>

record Blob =
  blob_is_File :: bool
  blob_name :: string
  blob_type :: string
  blob_bytes :: bytes
  blob_readable :: bool

record Transaction =
  tx_signer :: string
  tx_programId :: string
  tx_fileId :: string
  tx_cid :: "string option"
  tx_recentBlockhash :: string
  tx_feePayer :: string

record UploadJson =
  json_id :: "string option"
  json_cid :: "string option"
  json_url :: "string option"

record Response =
  resp_ok :: bool
  resp_statusText :: string
  resp_json :: "thrown + UploadJson"
  resp_arrayBuffer :: "thrown + bytes"

text \<open>
  Everything the SDK calls and does not implement. The key handles \<open>'pk\<close> (imported
  password) and \<open>'k\<close> (derived cipher key) are opaque, as \<^verbatim>\<open>CryptoKey\<close> is.
\<close>

record ('pk, 'k) platform =
  subtle_importKey :: "string \<Rightarrow> bytes \<Rightarrow> string \<Rightarrow> thrown + 'pk"
  subtle_deriveKey :: "Pbkdf2Params \<Rightarrow> 'pk \<Rightarrow> AesKeyGenParams \<Rightarrow> thrown + 'k"
  subtle_encrypt :: "AesGcmParams \<Rightarrow> 'k \<Rightarrow> bytes \<Rightarrow> thrown + bytes"
  subtle_decrypt :: "AesGcmParams \<Rightarrow> 'k \<Rightarrow> bytes \<Rightarrow> thrown + bytes"
  fetch_post :: "string \<Rightarrow> bytes \<Rightarrow> thrown + Response"
  fetch_get :: "string \<Rightarrow> thrown + Response"
  env_STORAGE_API_URL :: "string option"
  rpc_getLatestBlockhash :: "thrown + string"
  rpc_sendRawTransaction :: "Transaction \<Rightarrow> thrown + string"
  rpc_confirmTransaction :: "string \<Rightarrow> thrown + unit"

text \<open>The calls a run makes on the platform, in order.\<close>

datatype ('pk, 'k) event =
    GetRandomValues nat
  | ImportKey string bytes string
  | DeriveKey Pbkdf2Params 'pk AesKeyGenParams
  | ReadFile
  | Encrypt AesGcmParams 'k bytes
  | Decrypt AesGcmParams 'k bytes
  | FetchPost string bytes
  | FetchGet string
  | GetLatestBlockhash
  | SignTransaction Transaction
  | SendRawTransaction Transaction
  | ConfirmTransaction string
  | DateNow

text \<open>
  The state a run threads: the bytes the secure random source hands out next, the
  readings the clock gives next, and the log of platform calls so far.
\<close>

record ('pk, 'k) world =
  rng :: "nat \<Rightarrow> byte"
  clock :: "nat \<Rightarrow> nat"
  log :: "('pk, 'k) event list"

type_synonym ('pk, 'k, 'a) run = "(thrown + 'a) \<times> ('pk, 'k) world"

definition emit :: "('pk, 'k) event \<Rightarrow> ('pk, 'k) world \<Rightarrow> ('pk, 'k) world" where
  "emit e w = w\<lparr>log := log w @ [e]\<rparr>"

text \<open>Sequencing of awaited calls: a rejection skips the rest.\<close>

definition await :: "('pk, 'k, 'a) run \<Rightarrow> ('a \<Rightarrow> ('pk, 'k) world \<Rightarrow> ('pk, 'k, 'b) run)
    \<Rightarrow> ('pk, 'k, 'b) run" where
  "await r f = (case r of (Inl e, w) \<Rightarrow> (Inl e, w) | (Inr v, w) \<Rightarrow> f v w)"

text \<open>A \<^verbatim>\<open>catch\<close> block that rethrows a new error built from the caught one.\<close>

definition catch_rethrow :: "(thrown \<Rightarrow> thrown) \<Rightarrow> ('pk, 'k, 'a) run \<Rightarrow> ('pk, 'k, 'a) run" where
  "catch_rethrow h r = (case r of (Inl e, w) \<Rightarrow> (Inl (h e), w) | (Inr v, w) \<Rightarrow> (Inr v, w))"

text \<open>
  \<^verbatim>\<open>crypto.getRandomValues(new Uint8Array(n))\<close>: the array keeps its length \<open>n\<close> and
  is filled with the next \<open>n\<close> bytes of the source.
\<close>

definition getRandomValues :: "nat \<Rightarrow> ('pk, 'k) world \<Rightarrow> bytes \<times> ('pk, 'k) world" where
  "getRandomValues n w =
     (map (rng w) [0..<n], emit (GetRandomValues n) (w\<lparr>rng := (\<lambda>i. rng w (i + n))\<rparr>))"

definition Date_now :: "('pk, 'k) world \<Rightarrow> nat \<times> ('pk, 'k) world" where
  "Date_now w = (clock w 0, emit DateNow (w\<lparr>clock := (\<lambda>i. clock w (Suc i))\<rparr>))"

definition call_importKey :: "('pk, 'k) platform \<Rightarrow> string \<Rightarrow> bytes \<Rightarrow> string
    \<Rightarrow> ('pk, 'k) world \<Rightarrow> ('pk, 'k, 'pk) run" where
  "call_importKey pf format keyData algorithm w =
     (subtle_importKey pf format keyData algorithm, emit (ImportKey format keyData algorithm) w)"

definition call_deriveKey :: "('pk, 'k) platform \<Rightarrow> Pbkdf2Params \<Rightarrow> 'pk \<Rightarrow> AesKeyGenParams
    \<Rightarrow> ('pk, 'k) world \<Rightarrow> ('pk, 'k, 'k) run" where
  "call_deriveKey pf params baseKey derived w =
     (subtle_deriveKey pf params baseKey derived, emit (DeriveKey params baseKey derived) w)"

definition call_encrypt :: "('pk, 'k) platform \<Rightarrow> AesGcmParams \<Rightarrow> 'k \<Rightarrow> bytes
    \<Rightarrow> ('pk, 'k) world \<Rightarrow> ('pk, 'k, bytes) run" where
  "call_encrypt pf params key data w =
     (subtle_encrypt pf params key data, emit (Encrypt params key data) w)"

definition call_decrypt :: "('pk, 'k) platform \<Rightarrow> AesGcmParams \<Rightarrow> 'k \<Rightarrow> bytes
    \<Rightarrow> ('pk, 'k) world \<Rightarrow> ('pk, 'k, bytes) run" where
  "call_decrypt pf params key data w =
     (subtle_decrypt pf params key data, emit (Decrypt params key data) w)"

section \<open>EncryptionService\<close>

text \<open>\<^verbatim>\<open>fileToArrayBuffer\<close>: the reader's result, or \<^verbatim>\<open>Error('Failed to read file')\<close>.\<close>

definition fileToArrayBuffer :: "Blob \<Rightarrow> ('pk, 'k) world \<Rightarrow> ('pk, 'k, bytes) run" where
  "fileToArrayBuffer file w =
     (if blob_readable file then Inr (blob_bytes file)
      else Inl (JsError ''Error'' ''Failed to read file'' None),
      emit ReadFile w)"

text \<open>\<^verbatim>\<open>deriveKey\<close>: the body of the \<^verbatim>\<open>try\<close>, then the \<^verbatim>\<open>catch\<close>.\<close>

definition deriveKey_try :: "('pk, 'k) platform \<Rightarrow> js_string \<Rightarrow> bytes
    \<Rightarrow> ('pk, 'k) world \<Rightarrow> ('pk, 'k, 'k) run" where
  "deriveKey_try pf password salt_bytes w =
     await (call_importKey pf ''raw'' (TextEncoder_encode password) ''PBKDF2'' w)
       (\<lambda>passwordKey w1.
          call_deriveKey pf
            \<lparr> kdf_name = ''PBKDF2'', kdf_salt = salt_bytes,
              kdf_iterations = PBKDF2_ITERATIONS, kdf_hash = ''SHA-256'' \<rparr>
            passwordKey
            \<lparr> key_name = ALGORITHM, key_length = KEY_LENGTH \<rparr> w1)"

definition deriveKey :: "('pk, 'k) platform \<Rightarrow> js_string \<Rightarrow> bytes
    \<Rightarrow> ('pk, 'k) world \<Rightarrow> ('pk, 'k, 'k) run" where
  "deriveKey pf password salt_bytes w =
     catch_rethrow
       (\<lambda>error. EncryptionError (''Failed to derive key: '' @ message_or error ''Unknown error'')
                   (Some ''KEY_DERIVATION_FAILED''))
       (deriveKey_try pf password salt_bytes w)"

text \<open>
  \<^verbatim>\<open>encryptFile\<close>: nonce and salt are drawn first, then the key is derived, the file
  read and the cipher called. The metadata argument is not used.
\<close>

definition encryptFile_try :: "('pk, 'k) platform \<Rightarrow> Blob \<Rightarrow> js_string
    \<Rightarrow> ('pk, 'k) world \<Rightarrow> ('pk, 'k, EncryptedFile) run" where
  "encryptFile_try pf file password w =
     (let (iv_bytes, w1) = getRandomValues IV_LENGTH w;
          (salt_bytes, w2) = getRandomValues SALT_LENGTH w1
      in await (deriveKey pf password salt_bytes w2)
           (\<lambda>key w3.
              await (fileToArrayBuffer file w3)
                (\<lambda>fileData w4.
                   await (call_encrypt pf
                            \<lparr> gcm_name = ALGORITHM, gcm_iv = iv_bytes,
                              gcm_tagLength = TAG_LENGTH \<rparr> key fileData w4)
                     (\<lambda>encryptedData w5.
                        (Inr \<lparr> iv = iv_bytes, salt = salt_bytes,
                               ciphertext = encryptedData, authTag = None \<rparr>, w5)))))"

definition encryptFile :: "('pk, 'k) platform \<Rightarrow> Blob \<Rightarrow> js_string \<Rightarrow> 'm
    \<Rightarrow> ('pk, 'k) world \<Rightarrow> ('pk, 'k, EncryptedFile) run" where
  "encryptFile pf file password metadata w =
     catch_rethrow
       (\<lambda>error. EncryptionError (''Failed to encrypt file: '' @ message_or error ''Unknown error'')
                   (Some ''ENCRYPTION_FAILED''))
       (encryptFile_try pf file password w)"

definition decryptFile_try :: "('pk, 'k) platform \<Rightarrow> EncryptedFile \<Rightarrow> js_string
    \<Rightarrow> ('pk, 'k) world \<Rightarrow> ('pk, 'k, bytes) run" where
  "decryptFile_try pf encryptedFile password w =
     await (deriveKey pf password (salt encryptedFile) w)
       (\<lambda>key w1.
          call_decrypt pf
            \<lparr> gcm_name = ALGORITHM, gcm_iv = iv encryptedFile, gcm_tagLength = TAG_LENGTH \<rparr>
            key (ciphertext encryptedFile) w1)"

definition decryptFile :: "('pk, 'k) platform \<Rightarrow> EncryptedFile \<Rightarrow> js_string
    \<Rightarrow> ('pk, 'k) world \<Rightarrow> ('pk, 'k, bytes) run" where
  "decryptFile pf encryptedFile password w =
     catch_rethrow
       (\<lambda>error. EncryptionError
                   (''Failed to decrypt file: ''
                      @ message_or error ''Invalid password or corrupted data'')
                   (Some ''DECRYPTION_FAILED''))
       (decryptFile_try pf encryptedFile password w)"

section \<open>StorageService\<close>

datatype provider = ipfs | arweave

fun provider_name :: "provider \<Rightarrow> string" where
  "provider_name ipfs = ''ipfs''"
| "provider_name arweave = ''arweave''"

record StorageService =
  st_provider :: provider
  st_ipfsGateway :: string
  st_arweaveGateway :: string

text \<open>
  \<^verbatim>\<open>a || b\<close> on values that are a string or \<^verbatim>\<open>undefined\<close>: the left operand when
  it is a non-empty string, the right one otherwise.
\<close>

definition js_or :: "string option \<Rightarrow> string option \<Rightarrow> string option" where
  "js_or a b = (case a of None \<Rightarrow> b | Some x \<Rightarrow> (if x = [] then b else Some x))"

definition js_or_default :: "string option \<Rightarrow> string \<Rightarrow> string" where
  "js_or_default a d = (case a of None \<Rightarrow> d | Some x \<Rightarrow> (if x = [] then d else x))"

definition call_fetch_post :: "('pk, 'k) platform \<Rightarrow> string \<Rightarrow> bytes
    \<Rightarrow> ('pk, 'k) world \<Rightarrow> ('pk, 'k, Response) run" where
  "call_fetch_post pf url body w = (fetch_post pf url body, emit (FetchPost url body) w)"

definition call_fetch_get :: "('pk, 'k) platform \<Rightarrow> string
    \<Rightarrow> ('pk, 'k) world \<Rightarrow> ('pk, 'k, Response) run" where
  "call_fetch_get pf url w = (fetch_get pf url, emit (FetchGet url) w)"

definition uploadToIPFS :: "('pk, 'k) platform \<Rightarrow> bytes
    \<Rightarrow> ('pk, 'k) world \<Rightarrow> ('pk, 'k, string option) run" where
  "uploadToIPFS pf data w =
     (let uploadEndpoint =
            js_or_default (env_STORAGE_API_URL pf) ''https://upload.sgp.runfc.space''
      in await (call_fetch_post pf (uploadEndpoint @ ''/upload/image'') data w)
           (\<lambda>response w1.
              if \<not> resp_ok response
              then (Inl (JsError ''Error''
                           (''IPFS upload failed: '' @ resp_statusText response) None), w1)
              else await (resp_json response, w1)
                     (\<lambda>result w2.
                        (Inr (js_or (js_or (json_id result) (json_cid result))
                                (json_url result)), w2))))"

definition uploadToArweave :: "bytes \<Rightarrow> ('pk, 'k) world \<Rightarrow> ('pk, 'k, string option) run" where
  "uploadToArweave data w =
     (Inl (StorageError ''Arweave upload not yet implemented'' (Some ''NOT_IMPLEMENTED'')), w)"

definition storage_upload :: "StorageService \<Rightarrow> ('pk, 'k) platform \<Rightarrow> bytes
    \<Rightarrow> ('pk, 'k) world \<Rightarrow> ('pk, 'k, string option) run" where
  "storage_upload st pf data w =
     catch_rethrow
       (\<lambda>error. StorageError
                   (''Failed to upload to '' @ provider_name (st_provider st) @ '': ''
                      @ message_or error ''Unknown error'')
                   (Some ''UPLOAD_FAILED''))
       (if st_provider st = ipfs then uploadToIPFS pf data w else uploadToArweave data w)"

definition downloadFromIPFS :: "StorageService \<Rightarrow> ('pk, 'k) platform \<Rightarrow> string
    \<Rightarrow> ('pk, 'k) world \<Rightarrow> ('pk, 'k, bytes) run" where
  "downloadFromIPFS st pf cid w =
     await (call_fetch_get pf (st_ipfsGateway st @ cid) w)
       (\<lambda>response w1.
          if \<not> resp_ok response
          then (Inl (JsError ''Error''
                       (''IPFS download failed: '' @ resp_statusText response) None), w1)
          else (resp_arrayBuffer response, w1))"

definition downloadFromArweave :: "StorageService \<Rightarrow> ('pk, 'k) platform \<Rightarrow> string
    \<Rightarrow> ('pk, 'k) world \<Rightarrow> ('pk, 'k, bytes) run" where
  "downloadFromArweave st pf txId w =
     await (call_fetch_get pf (st_arweaveGateway st @ txId) w)
       (\<lambda>response w1.
          if \<not> resp_ok response
          then (Inl (JsError ''Error''
                       (''Arweave download failed: '' @ resp_statusText response) None), w1)
          else (resp_arrayBuffer response, w1))"

definition storage_download :: "StorageService \<Rightarrow> ('pk, 'k) platform \<Rightarrow> string
    \<Rightarrow> ('pk, 'k) world \<Rightarrow> ('pk, 'k, bytes) run" where
  "storage_download st pf cid w =
     catch_rethrow
       (\<lambda>error. StorageError
                   (''Failed to download from '' @ provider_name (st_provider st) @ '': ''
                      @ message_or error ''Unknown error'')
                   (Some ''DOWNLOAD_FAILED''))
       (if st_provider st = ipfs then downloadFromIPFS st pf cid w
        else downloadFromArweave st pf cid w)"

section \<open>SolanaService\<close>

record WalletAdapter =
  wallet_publicKey :: "string option"
  wallet_signTransaction :: "(Transaction \<Rightarrow> thrown + Transaction) option"

definition initializeFile_try :: "('pk, 'k) platform \<Rightarrow> string \<Rightarrow> string \<Rightarrow> string
    \<Rightarrow> string option \<Rightarrow> WalletAdapter \<Rightarrow> ('pk, 'k) world \<Rightarrow> ('pk, 'k, string) run" where
  "initializeFile_try pf programId publicKey fileId cid wallet w =
     await (rpc_getLatestBlockhash pf, emit GetLatestBlockhash w)
       (\<lambda>blockhash w1.
          let transaction = \<lparr> tx_signer = publicKey, tx_programId = programId,
                                tx_fileId = fileId, tx_cid = cid,
                                tx_recentBlockhash = blockhash, tx_feePayer = publicKey \<rparr>
          in case wallet_signTransaction wallet of
               None \<Rightarrow>
                 (Inl (SolanaError ''Wallet does not support signing''
                         (Some ''SIGNING_NOT_SUPPORTED'')), w1)
             | Some signTransaction \<Rightarrow>
                 await (signTransaction transaction, emit (SignTransaction transaction) w1)
                   (\<lambda>signed w2.
                      await (rpc_sendRawTransaction pf signed, emit (SendRawTransaction signed) w2)
                        (\<lambda>signature w3.
                           await (rpc_confirmTransaction pf signature,
                                  emit (ConfirmTransaction signature) w3)
                             (\<lambda>u w4. (Inr signature, w4)))))"

definition initializeFile :: "string option \<Rightarrow> ('pk, 'k) platform \<Rightarrow> string \<Rightarrow> string option
    \<Rightarrow> WalletAdapter \<Rightarrow> ('pk, 'k) world \<Rightarrow> ('pk, 'k, string) run" where
  "initializeFile programId pf fileId cid wallet w =
     (case wallet_publicKey wallet of
        None \<Rightarrow> (Inl (SolanaError ''Wallet not connected'' (Some ''WALLET_NOT_CONNECTED'')), w)
      | Some publicKey \<Rightarrow>
          (case programId of
             None \<Rightarrow> (Inl (SolanaError ''Program ID not set'' (Some ''PROGRAM_ID_NOT_SET'')), w)
           | Some pid \<Rightarrow>
               catch_rethrow
                 (\<lambda>error. SolanaError
                             (''Failed to initialize file: '' @ message_or error ''Unknown error'')
                             (Some ''INITIALIZE_FILE_FAILED''))
                 (initializeFile_try pf pid publicKey fileId cid wallet w)))"

section \<open>ZKFileClient\<close>

record PartialFileMetadata =
  pm_name :: "string option"
  pm_type :: "string option"
  pm_size :: "nat option"
  pm_description :: "string option"
  pm_tags :: "string list option"
  pm_createdAt :: "nat option"

record FileMetadata =
  md_name :: string
  md_type :: string
  md_size :: nat
  md_description :: "string option"
  md_tags :: "string list option"
  md_createdAt :: "nat option"

text \<open>
  The option objects as they arrive at run time: a property that TypeScript declares
  can still be \<^verbatim>\<open>undefined\<close> or \<^verbatim>\<open>null\<close>, which is what the validation checks.
  The progress callback is handed on to the storage service, which never calls it.
\<close>

record UploadOptions =
  up_file :: "Blob option"
  up_password :: "js_string option"
  up_wallet :: "WalletAdapter option"
  up_metadata :: "PartialFileMetadata option"

record DownloadOptions =
  dl_fileId :: "string option"
  dl_password :: "js_string option"
  dl_wallet :: "WalletAdapter option"

record UploadResult =
  res_fileId :: string
  res_cid :: "string option"
  res_signature :: string
  res_metadata :: FileMetadata
  res_uploadedAt :: nat

record ZKFileClient =
  cl_storage :: StorageService
  cl_programId :: "string option"

text \<open>\<^verbatim>\<open>!x\<close> for a value that is a string or absent: true when absent or empty.\<close>

definition js_not :: "'a list option \<Rightarrow> bool" where
  "js_not x = (case x of None \<Rightarrow> True | Some s \<Rightarrow> s = [])"

definition wallet_missing :: "WalletAdapter option \<Rightarrow> bool" where
  "wallet_missing wallet =
     (case wallet of None \<Rightarrow> True | Some a \<Rightarrow> wallet_publicKey a = None)"

definition validateUploadOptions :: "UploadOptions \<Rightarrow> thrown + unit" where
  "validateUploadOptions options =
     (if up_file options = None
      then Inl (ValidationError ''File is required'' (Some ''MISSING_FILE''))
      else if js_not (up_password options)
      then Inl (ValidationError ''Password is required'' (Some ''MISSING_PASSWORD''))
      else if wallet_missing (up_wallet options)
      then Inl (ValidationError ''Wallet is required'' (Some ''MISSING_WALLET''))
      else Inr ())"

definition validateDownloadOptions :: "DownloadOptions \<Rightarrow> thrown + unit" where
  "validateDownloadOptions options =
     (if js_not (dl_fileId options)
      then Inl (ValidationError ''File ID is required'' (Some ''MISSING_FILE_ID''))
      else if js_not (dl_password options)
      then Inl (ValidationError ''Password is required'' (Some ''MISSING_PASSWORD''))
      else if wallet_missing (dl_wallet options)
      then Inl (ValidationError ''Wallet is required'' (Some ''MISSING_WALLET''))
      else Inr ())"

text \<open>
  \<^verbatim>\<open>generateFileId\<close>: \<^verbatim>\<open>cid.substring(0, 16)\<close> behind the prefix; on an
  \<^verbatim>\<open>undefined\<close> content identifier the property access throws a \<^verbatim>\<open>TypeError\<close>
  (its message is the engine's).
\<close>

definition generateFileId :: "string option \<Rightarrow> thrown + string" where
  "generateFileId cid =
     (case cid of
        None \<Rightarrow> Inl (JsError ''TypeError'' ''cid is undefined'' None)
      | Some c \<Rightarrow> Inr (''zkf_'' @ take 16 c))"

text \<open>\<^verbatim>\<open>s.replace(pattern, replacement)\<close> with a string pattern: the first occurrence only.\<close>

fun replace_first :: "string \<Rightarrow> string \<Rightarrow> string \<Rightarrow> string" where
  "replace_first pat rep [] = (if pat = [] then rep else [])"
| "replace_first pat rep (c # cs) =
     (if take (length pat) (c # cs) = pat then rep @ drop (length pat) (c # cs)
      else c # replace_first pat rep cs)"

definition extractCIDFromFileId :: "string \<Rightarrow> string" where
  "extractCIDFromFileId fileId = replace_first ''zkf_'' [] fileId"

definition upload :: "ZKFileClient \<Rightarrow> ('pk, 'k) platform \<Rightarrow> UploadOptions
    \<Rightarrow> ('pk, 'k) world \<Rightarrow> ('pk, 'k, UploadResult) run" where
  "upload cl pf options w =
     (case validateUploadOptions options of
        Inl e \<Rightarrow> (Inl e, w)
      | Inr u \<Rightarrow>
          (let file = the (up_file options);
               password = the (up_password options);
               wallet = the (up_wallet options);
               metadata = up_metadata options
           in await (encryptFile pf file password metadata w)
                (\<lambda>encryptedFile w1.
                   await (combineEncryptedParts encryptedFile, w1)
                     (\<lambda>combinedData w2.
                        await (storage_upload (cl_storage cl) pf combinedData w2)
                          (\<lambda>cid w3.
                             await (generateFileId cid, w3)
                               (\<lambda>fileId w4.
                                  await (if cl_programId cl \<noteq> None
                                         then initializeFile (cl_programId cl) pf fileId cid wallet w4
                                         else (Inr [], w4))
                                    (\<lambda>signature w5.
                                       let (createdAt, w6) = Date_now w5;
                                           fileMetadata =
                                             \<lparr> md_name = (if blob_is_File file then blob_name file
                                                           else ''encrypted-file''),
                                               md_type = js_or_default (Some (blob_type file))
                                                           ''application/octet-stream'',
                                               md_size = length (blob_bytes file),
                                               md_description =
                                                 (case metadata of None \<Rightarrow> None
                                                  | Some m \<Rightarrow> pm_description m),
                                               md_tags =
                                                 (case metadata of None \<Rightarrow> None
                                                  | Some m \<Rightarrow> pm_tags m),
                                               md_createdAt = Some createdAt \<rparr>;
                                           (uploadedAt, w7) = Date_now w6
                                       in (Inr \<lparr> res_fileId = fileId, res_cid = cid,
                                                  res_signature = signature,
                                                  res_metadata = fileMetadata,
                                                  res_uploadedAt = uploadedAt \<rparr>, w7))))))))"

definition download :: "ZKFileClient \<Rightarrow> ('pk, 'k) platform \<Rightarrow> DownloadOptions
    \<Rightarrow> ('pk, 'k) world \<Rightarrow> ('pk, 'k, Blob) run" where
  "download cl pf options w =
     (case validateDownloadOptions options of
        Inl e \<Rightarrow> (Inl e, w)
      | Inr u \<Rightarrow>
          (let fileId = the (dl_fileId options);
               password = the (dl_password options);
               cid = extractCIDFromFileId fileId
           in await (storage_download (cl_storage cl) pf cid w)
                (\<lambda>encryptedData w1.
                   await (splitEncryptedParts encryptedData, w1)
                     (\<lambda>encryptedFile w2.
                        await (decryptFile pf encryptedFile password w2)
                          (\<lambda>decryptedData w3.
                             (Inr \<lparr> blob_is_File = True, blob_name = ''decrypted-file'',
                                    blob_type = ''application/octet-stream'',
                                    blob_bytes = decryptedData, blob_readable = True \<rparr>,
                              w3))))))"

text \<open>The platform calls of the cipher, the key derivation and the storage gateways.\<close>

fun is_crypto_event :: "('pk, 'k) event \<Rightarrow> bool" where
  "is_crypto_event (ImportKey f d a) = True"
| "is_crypto_event (DeriveKey p b t) = True"
| "is_crypto_event (Encrypt p k d) = True"
| "is_crypto_event (Decrypt p k d) = True"
| "is_crypto_event e = False"

fun is_storage_event :: "('pk, 'k) event \<Rightarrow> bool" where
  "is_storage_event (FetchPost u b) = True"
| "is_storage_event (FetchGet u) = True"
| "is_storage_event e = False"

section \<open>Vocabulary of the properties\<close>

text \<open>The events a run has added to the log.\<close>

definition new_events :: "('pk, 'k) world \<Rightarrow> ('pk, 'k) world \<Rightarrow> ('pk, 'k) event list" where
  "new_events w w' = drop (length (log w)) (log w')"

text \<open>The bytes the random source hands to the two draws of one encryption.\<close>

definition drawn_iv :: "('pk, 'k) world \<Rightarrow> bytes" where
  "drawn_iv w = map (rng w) [0..<12]"

definition drawn_salt :: "('pk, 'k) world \<Rightarrow> bytes" where
  "drawn_salt w = map (rng w) [12..<28]"

definition after_draws :: "('pk, 'k) world \<Rightarrow> ('pk, 'k) world" where
  "after_draws w = snd (getRandomValues SALT_LENGTH (snd (getRandomValues IV_LENGTH w)))"

text \<open>
  What is assumed of the authenticated cipher: opening a sealed text under the same key
  and parameters gives the plaintext back, and opening it under another key is refused.
\<close>

definition aead_correct :: "('pk, 'k) platform \<Rightarrow> bool" where
  "aead_correct pf \<longleftrightarrow>
     (\<forall>params key data c. subtle_encrypt pf params key data = Inr c
        \<longrightarrow> subtle_decrypt pf params key c = Inr data)"

definition aead_rejects_mismatched_keys :: "('pk, 'k) platform \<Rightarrow> bool" where
  "aead_rejects_mismatched_keys pf \<longleftrightarrow>
     (\<forall>params key key' data c. key \<noteq> key' \<longrightarrow> subtle_encrypt pf params key data = Inr c
        \<longrightarrow> (\<exists>e. subtle_decrypt pf params key' c = Inl e))"

text \<open>
  The key-derivation requests the specification fixes for a password and a salt: the
  password is imported raw, and the derivation asks for PBKDF2 with 100,000 iterations
  of SHA-256 and a 256-bit AES-GCM key. The second request is made only when the import
  succeeded.
\<close>

definition kdf_trace :: "('pk, 'k) platform \<Rightarrow> js_string \<Rightarrow> bytes \<Rightarrow> ('pk, 'k) event list" where
  "kdf_trace pf password salt_bytes =
     ImportKey ''raw'' (TextEncoder_encode password) ''PBKDF2''
     # (case subtle_importKey pf ''raw'' (TextEncoder_encode password) ''PBKDF2'' of
          Inl e \<Rightarrow> []
        | Inr pk \<Rightarrow>
            [DeriveKey \<lparr> kdf_name = ''PBKDF2'', kdf_salt = salt_bytes,
                         kdf_iterations = 100000, kdf_hash = ''SHA-256'' \<rparr>
               pk \<lparr> key_name = ''AES-GCM'', key_length = 256 \<rparr>])"

fun is_kdf_event :: "('pk, 'k) event \<Rightarrow> bool" where
  "is_kdf_event (ImportKey f d a) = True"
| "is_kdf_event (DeriveKey p b t) = True"
| "is_kdf_event e = False"

fun is_random_event :: "('pk, 'k) event \<Rightarrow> bool" where
  "is_random_event (GetRandomValues n) = True"
| "is_random_event e = False"

fun cipher_key :: "('pk, 'k) event \<Rightarrow> 'k option" where
  "cipher_key (Encrypt p k d) = Some k"
| "cipher_key (Decrypt p k d) = Some k"
| "cipher_key e = None"

definition cipher_keys :: "('pk, 'k) event list \<Rightarrow> 'k list" where
  "cipher_keys es = List.map_filter cipher_key es"

text \<open>The parameters the cipher is called with when sealing and when opening.\<close>

definition seal_params :: "('pk, 'k) world \<Rightarrow> AesGcmParams" where
  "seal_params w = \<lparr> gcm_name = ''AES-GCM'', gcm_iv = drawn_iv w, gcm_tagLength = 128 \<rparr>"

definition open_params :: "EncryptedFile \<Rightarrow> AesGcmParams" where
  "open_params c = \<lparr> gcm_name = ''AES-GCM'', gcm_iv = iv c, gcm_tagLength = 128 \<rparr>"

text \<open>The identity a caller can test an error by: the class name and the code.\<close>

fun identity :: "thrown \<Rightarrow> (string \<times> string option) option" where
  "identity (JsError n m c) = Some (n, c)"
| "identity JsNonError = None"

section \<open>A small platform to run the definitions on\<close>

text \<open>
  Key handles are bytes. The derived key is the byte sum of password and salt, the
  cipher adds the key to every byte and appends sixteen copies of it as the tag. It
  has the two properties assumed of an authenticated cipher, and nothing else of one.
\<close>

definition demo_importKey :: "string \<Rightarrow> bytes \<Rightarrow> string \<Rightarrow> thrown + bytes" where
  "demo_importKey format keyData algorithm =
     (if format = ''raw'' \<and> algorithm = ''PBKDF2'' then Inr keyData
      else Inl (JsError ''NotSupportedError'' ''Unrecognized algorithm'' None))"

definition demo_deriveKey :: "Pbkdf2Params \<Rightarrow> bytes \<Rightarrow> AesKeyGenParams \<Rightarrow> thrown + byte" where
  "demo_deriveKey params baseKey derived =
     (if kdf_name params = ''PBKDF2'' \<and> key_name derived = ''AES-GCM''
      then Inr (sum_list baseKey + sum_list (kdf_salt params))
      else Inl (JsError ''NotSupportedError'' ''Unrecognized algorithm'' None))"

definition demo_tag :: "byte \<Rightarrow> bytes" where
  "demo_tag key = [key, key, key, key, key, key, key, key,
                   key, key, key, key, key, key, key, key]"

definition demo_encrypt :: "AesGcmParams \<Rightarrow> byte \<Rightarrow> bytes \<Rightarrow> thrown + bytes" where
  "demo_encrypt params key data =
     (if gcm_name params = ''AES-GCM'' \<and> gcm_tagLength params = 128
      then Inr (map (\<lambda>b. b + key) data @ demo_tag key)
      else Inl (JsError ''OperationError'' [] None))"

definition demo_decrypt :: "AesGcmParams \<Rightarrow> byte \<Rightarrow> bytes \<Rightarrow> thrown + bytes" where
  "demo_decrypt params key data =
     (if gcm_name params = ''AES-GCM'' \<and> gcm_tagLength params = 128
         \<and> 16 \<le> length data \<and> drop (length data - 16) data = demo_tag key
      then Inr (map (\<lambda>b. b - key) (take (length data - 16) data))
      else Inl (JsError ''OperationError'' [] None))"

definition demo_response :: Response where
  "demo_response =
     \<lparr> resp_ok = True, resp_statusText = ''OK'',
       resp_json = Inr \<lparr> json_id = None, json_cid = Some ''bafy'', json_url = None \<rparr>,
       resp_arrayBuffer = Inr [1, 2, 3] \<rparr>"

definition demo_platform :: "(bytes, byte) platform" where
  "demo_platform =
     \<lparr> subtle_importKey = demo_importKey, subtle_deriveKey = demo_deriveKey,
       subtle_encrypt = demo_encrypt, subtle_decrypt = demo_decrypt,
       fetch_post = (\<lambda>url body. Inr demo_response),
       fetch_get = (\<lambda>url. Inr demo_response),
       env_STORAGE_API_URL = None,
       rpc_getLatestBlockhash = Inr ''blockhash'',
       rpc_sendRawTransaction = (\<lambda>tx. Inr ''signature''),
       rpc_confirmTransaction = (\<lambda>sig. Inr ()) \<rparr>"

definition demo_world :: "(bytes, byte) world" where
  "demo_world = \<lparr> rng = (\<lambda>i. of_nat i), clock = (\<lambda>i. i), log = [] \<rparr>"

definition demo_world2 :: "(bytes, byte) world" where
  "demo_world2 = \<lparr> rng = (\<lambda>i. of_nat (i + 40)), clock = (\<lambda>i. i), log = [] \<rparr>"

definition demo_file :: Blob where
  "demo_file =
     \<lparr> blob_is_File = True, blob_name = ''secret.txt'', blob_type = ''text/plain'',
       blob_bytes = [0x48, 0x69], blob_readable = True \<rparr>"

definition demo_unreadable :: Blob where
  "demo_unreadable = demo_file\<lparr>blob_readable := False\<rparr>"

definition demo_client :: ZKFileClient where
  "demo_client =
     \<lparr> cl_storage = \<lparr> st_provider = ipfs, st_ipfsGateway = ''https://ipfs.io/ipfs/'',
                       st_arweaveGateway = ''https://arweave.net/'' \<rparr>,
       cl_programId = None \<rparr>"

definition demo_wallet :: WalletAdapter where
  "demo_wallet = \<lparr> wallet_publicKey = Some ''owner'', wallet_signTransaction = None \<rparr>"

text \<open>
  The container the small platform produces for \<open>demo_file\<close> under the password
  \<^verbatim>\<open>"pw"\<close> in \<open>demo_world\<close>, and its serialized form.
\<close>

definition demo_container :: EncryptedFile where
  "demo_container =
     \<lparr> iv = [0, 1, 2, 3, 4, 5, 6, 7, 8, 9, 10, 11],
       salt = [12, 13, 14, 15, 16, 17, 18, 19, 20, 21, 22, 23, 24, 25, 26, 27],
       ciphertext = [103, 136, 31, 31, 31, 31, 31, 31, 31, 31, 31, 31, 31, 31, 31, 31, 31, 31],
       authTag = None \<rparr>"

definition demo_buffer :: bytes where
  "demo_buffer = [0, 1, 2, 3, 4, 5, 6, 7, 8, 9, 10, 11,
                  12, 13, 14, 15, 16, 17, 18, 19, 20, 21, 22, 23, 24, 25, 26, 27,
                  103, 136]"

text \<open>
  The container the small platform produces for \<open>demo_file\<close> under a password that
  is one unpaired high surrogate.
\<close>

definition surrogate_container :: EncryptedFile where
  "surrogate_container =
     \<lparr> iv = [0, 1, 2, 3, 4, 5, 6, 7, 8, 9, 10, 11],
       salt = [12, 13, 14, 15, 16, 17, 18, 19, 20, 21, 22, 23, 24, 25, 26, 27],
       ciphertext = [235, 12, 163, 163, 163, 163, 163, 163, 163, 163, 163, 163, 163, 163,
                     163, 163, 163, 163],
       authTag = None \<rparr>"

text \<open>The container of the same file and password in \<open>demo_world2\<close>.\<close>

definition demo_container2 :: EncryptedFile where
  "demo_container2 =
     \<lparr> iv = [40, 41, 42, 43, 44, 45, 46, 47, 48, 49, 50, 51],
       salt = [52, 53, 54, 55, 56, 57, 58, 59, 60, 61, 62, 63, 64, 65, 66, 67],
       ciphertext = [231, 8, 159, 159, 159, 159, 159, 159, 159, 159, 159, 159, 159, 159,
                     159, 159, 159, 159],
       authTag = None \<rparr>"

text \<open>Option objects and buffers for the small platform.\<close>

definition demo_download_options :: DownloadOptions where
  "demo_download_options =
     \<lparr> dl_fileId = Some ''zkf_bafy'', dl_password = Some [0x70, 0x77],
       dl_wallet = Some demo_wallet \<rparr>"

definition empty_download_options :: DownloadOptions where
  "empty_download_options =
     \<lparr> dl_fileId = Some [], dl_password = Some [], dl_wallet = Some demo_wallet \<rparr>"

definition demo_upload_options :: UploadOptions where
  "demo_upload_options =
     \<lparr> up_file = Some demo_file, up_password = Some [], up_wallet = Some demo_wallet,
       up_metadata = None \<rparr>"

definition demo_buffer28 :: bytes where
  "demo_buffer28 = [0, 1, 2, 3, 4, 5, 6, 7, 8, 9, 10, 11,
                    12, 13, 14, 15, 16, 17, 18, 19, 20, 21, 22, 23, 24, 25, 26, 27]"

text \<open>The error \<open>splitEncryptedParts\<close> throws.\<close>

definition too_short :: thrown where
  "too_short = JsError ''EncryptionError'' ''Invalid encrypted data: too short''
                 (Some ''INVALID_ENCRYPTED_DATA'')"

section \<open>Framing lemmas\<close>

lemma combineEncryptedParts_concat:
  "combineEncryptedParts ef = Inr (iv ef @ salt ef @ ciphertext ef)"
  by (simp add: combineEncryptedParts_def uint8_set_def Let_def)

lemma uint8_slice_take_drop:
  "b \<le> e \<Longrightarrow> e \<le> length xs \<Longrightarrow> uint8_slice xs b e = take (e - b) (drop b xs)"
  by (simp add: uint8_slice_def Let_def min_def)

lemma uint8_slice_nth:
  "b \<le> e \<Longrightarrow> e \<le> length xs \<Longrightarrow> uint8_slice xs b e = map ((!) xs) [b..<e]"
  by (auto simp: uint8_slice_take_drop intro!: nth_equalityI)

section \<open>Sequencing lemmas\<close>

lemma await_simps [simp]:
  "await (Inl e, w) f = (Inl e, w)"
  "await (Inr v, w) f = f v w"
  by (simp_all add: await_def)

lemma catch_rethrow_simps [simp]:
  "catch_rethrow h (Inl e, w) = (Inl (h e), w)"
  "catch_rethrow h (Inr v, w) = (Inr v, w)"
  by (simp_all add: catch_rethrow_def)

lemma catch_rethrow_snd [simp]: "snd (catch_rethrow h r) = snd r"
  by (cases r; cases "fst r") (auto simp: catch_rethrow_def)

lemma log_emit [simp]: "log (emit e w) = log w @ [e]"
  by (simp add: emit_def)

lemma rng_emit [simp]: "rng (emit e w) = rng w"
  by (simp add: emit_def)

lemma new_events_append: "log w' = log w @ es \<Longrightarrow> new_events w w' = es"
  by (simp add: new_events_def)

section \<open>The random source\<close>

lemma map_shift_upt: "map (\<lambda>i. f (i + n)) [0..<m] = map f [n..<n + m]"
proof -
  have "map f (map (\<lambda>i. i + n) [0..<m]) = map f [n..<m + n]"
    by (simp only: map_add_upt)
  then show ?thesis by (simp add: comp_def add.commute)
qed

lemma getRandomValues_fst: "fst (getRandomValues n w) = map (rng w) [0..<n]"
  by (simp add: getRandomValues_def)

lemma getRandomValues_twice:
  "fst (getRandomValues m (snd (getRandomValues n w))) = map (rng w) [n..<n + m]"
  by (simp add: getRandomValues_def emit_def map_shift_upt)

lemma drawn_iv_eq: "fst (getRandomValues IV_LENGTH w) = drawn_iv w"
  by (simp only: getRandomValues_fst drawn_iv_def IV_LENGTH_def)

lemma drawn_salt_eq:
  "fst (getRandomValues SALT_LENGTH (snd (getRandomValues IV_LENGTH w))) = drawn_salt w"
proof -
  have "(12::nat) + 16 = 28" by simp
  then show ?thesis
    by (simp only: getRandomValues_twice drawn_salt_def IV_LENGTH_def SALT_LENGTH_def)
qed

lemma length_drawn_iv [simp]: "length (drawn_iv w) = 12"
  by (simp add: drawn_iv_def)

lemma length_drawn_salt [simp]: "length (drawn_salt w) = 16"
  by (simp add: drawn_salt_def)

lemma log_after_draws:
  "log (after_draws w) = log w @ [GetRandomValues 12, GetRandomValues 16]"
  by (simp add: after_draws_def getRandomValues_def IV_LENGTH_def SALT_LENGTH_def)

lemma rng_after_draws: "rng (after_draws w) i = rng w (i + 28)"
  by (simp add: after_draws_def getRandomValues_def IV_LENGTH_def SALT_LENGTH_def add.assoc)

section \<open>Key derivation\<close>

lemma deriveKey_cases:
  "deriveKey pf password s w =
     (case subtle_importKey pf ''raw'' (TextEncoder_encode password) ''PBKDF2'' of
        Inl e \<Rightarrow>
          (Inl (EncryptionError (''Failed to derive key: '' @ message_or e ''Unknown error'')
                  (Some ''KEY_DERIVATION_FAILED'')),
           emit (ImportKey ''raw'' (TextEncoder_encode password) ''PBKDF2'') w)
      | Inr pk \<Rightarrow>
          catch_rethrow
            (\<lambda>error. EncryptionError
                        (''Failed to derive key: '' @ message_or error ''Unknown error'')
                        (Some ''KEY_DERIVATION_FAILED''))
            (subtle_deriveKey pf
               \<lparr> kdf_name = ''PBKDF2'', kdf_salt = s, kdf_iterations = 100000,
                 kdf_hash = ''SHA-256'' \<rparr> pk \<lparr> key_name = ''AES-GCM'', key_length = 256 \<rparr>,
             emit (DeriveKey \<lparr> kdf_name = ''PBKDF2'', kdf_salt = s, kdf_iterations = 100000,
                      kdf_hash = ''SHA-256'' \<rparr> pk \<lparr> key_name = ''AES-GCM'', key_length = 256 \<rparr>)
               (emit (ImportKey ''raw'' (TextEncoder_encode password) ''PBKDF2'') w)))"
  by (simp add: deriveKey_def deriveKey_try_def call_importKey_def call_deriveKey_def
        PBKDF2_ITERATIONS_def ALGORITHM_def KEY_LENGTH_def split: sum.splits)

lemma deriveKey_log: "log (snd (deriveKey pf password s w)) = log w @ kdf_trace pf password s"
  by (simp add: deriveKey_cases kdf_trace_def split: sum.splits)

lemma deriveKey_rng: "rng (snd (deriveKey pf password s w)) = rng w"
  by (simp add: deriveKey_cases split: sum.splits)

lemma deriveKey_fst_world:
  "fst (deriveKey pf password s w) = fst (deriveKey pf password s v)"
  by (simp add: deriveKey_cases catch_rethrow_def split: sum.splits)

section \<open>Encryption and decryption\<close>

lemma encryptFile_try_unfold:
  "encryptFile_try pf file password w =
     await (deriveKey pf password (drawn_salt w) (after_draws w))
       (\<lambda>key w3. await (fileToArrayBuffer file w3)
          (\<lambda>fileData w4. await (call_encrypt pf
               \<lparr> gcm_name = ALGORITHM, gcm_iv = drawn_iv w, gcm_tagLength = TAG_LENGTH \<rparr>
               key fileData w4)
             (\<lambda>encryptedData w5.
                (Inr \<lparr> iv = drawn_iv w, salt = drawn_salt w,
                       ciphertext = encryptedData, authTag = None \<rparr>, w5))))"
  unfolding encryptFile_try_def after_draws_def
  by (simp only: Let_def case_prod_beta drawn_salt_eq) (simp only: drawn_iv_eq)

lemma encryptFile_cases:
  "encryptFile pf file password metadata w =
     (case deriveKey pf password (drawn_salt w) (after_draws w) of
        (Inl e, w3) \<Rightarrow>
          (Inl (EncryptionError (''Failed to encrypt file: '' @ message_or e ''Unknown error'')
                  (Some ''ENCRYPTION_FAILED'')), w3)
      | (Inr key, w3) \<Rightarrow>
          (if \<not> blob_readable file
           then (Inl (EncryptionError (''Failed to encrypt file: '' @ ''Failed to read file'')
                        (Some ''ENCRYPTION_FAILED'')), emit ReadFile w3)
           else (case subtle_encrypt pf (seal_params w) key (blob_bytes file) of
                   Inl e \<Rightarrow>
                     (Inl (EncryptionError
                             (''Failed to encrypt file: '' @ message_or e ''Unknown error'')
                             (Some ''ENCRYPTION_FAILED'')),
                      emit (Encrypt (seal_params w) key (blob_bytes file)) (emit ReadFile w3))
                 | Inr ct \<Rightarrow>
                     (Inr \<lparr> iv = drawn_iv w, salt = drawn_salt w, ciphertext = ct,
                            authTag = None \<rparr>,
                      emit (Encrypt (seal_params w) key (blob_bytes file)) (emit ReadFile w3)))))"
  unfolding encryptFile_def encryptFile_try_unfold
  by (simp add: fileToArrayBuffer_def call_encrypt_def seal_params_def message_or_def
        ALGORITHM_def TAG_LENGTH_def split: sum.splits prod.splits)

lemma decryptFile_cases:
  "decryptFile pf c password w =
     (case deriveKey pf password (salt c) w of
        (Inl e, w1) \<Rightarrow>
          (Inl (EncryptionError
                  (''Failed to decrypt file: ''
                     @ message_or e ''Invalid password or corrupted data'')
                  (Some ''DECRYPTION_FAILED'')), w1)
      | (Inr key, w1) \<Rightarrow>
          (case subtle_decrypt pf (open_params c) key (ciphertext c) of
             Inl e \<Rightarrow>
               (Inl (EncryptionError
                       (''Failed to decrypt file: ''
                          @ message_or e ''Invalid password or corrupted data'')
                       (Some ''DECRYPTION_FAILED'')),
                emit (Decrypt (open_params c) key (ciphertext c)) w1)
           | Inr p \<Rightarrow> (Inr p, emit (Decrypt (open_params c) key (ciphertext c)) w1)))"
  unfolding decryptFile_def decryptFile_try_def
  by (simp add: call_decrypt_def open_params_def ALGORITHM_def TAG_LENGTH_def
        split: sum.splits prod.splits)

lemma encryptFile_Inr_iff:
  "fst (encryptFile pf file password metadata w) = Inr c \<longleftrightarrow>
     (\<exists>key ct. fst (deriveKey pf password (drawn_salt w) (after_draws w)) = Inr key
        \<and> blob_readable file
        \<and> subtle_encrypt pf (seal_params w) key (blob_bytes file) = Inr ct
        \<and> c = \<lparr> iv = drawn_iv w, salt = drawn_salt w, ciphertext = ct, authTag = None \<rparr>)"
  by (auto simp: encryptFile_cases split: sum.splits prod.splits if_splits)

lemma decryptFile_fst:
  "fst (decryptFile pf c password w) =
     (case fst (deriveKey pf password (salt c) w) of
        Inl e \<Rightarrow>
          Inl (EncryptionError
                 (''Failed to decrypt file: ''
                    @ message_or e ''Invalid password or corrupted data'')
                 (Some ''DECRYPTION_FAILED''))
      | Inr key \<Rightarrow>
          (case subtle_decrypt pf (open_params c) key (ciphertext c) of
             Inl e \<Rightarrow>
               Inl (EncryptionError
                      (''Failed to decrypt file: ''
                         @ message_or e ''Invalid password or corrupted data'')
                      (Some ''DECRYPTION_FAILED''))
           | Inr p \<Rightarrow> Inr p))"
  by (simp add: decryptFile_cases split: sum.splits prod.splits)

lemma encryptFile_log:
  "log (snd (encryptFile pf file password metadata w)) =
     log w @ [GetRandomValues 12, GetRandomValues 16] @ kdf_trace pf password (drawn_salt w)
       @ (case fst (deriveKey pf password (drawn_salt w) (after_draws w)) of
            Inl e \<Rightarrow> []
          | Inr key \<Rightarrow>
              ReadFile # (if blob_readable file
                          then [Encrypt (seal_params w) key (blob_bytes file)] else []))"
proof -
  have l: "log (snd (deriveKey pf password (drawn_salt w) (after_draws w)))
             = log w @ [GetRandomValues 12, GetRandomValues 16] @ kdf_trace pf password (drawn_salt w)"
    by (simp add: deriveKey_log log_after_draws)
  show ?thesis
    using l by (cases "deriveKey pf password (drawn_salt w) (after_draws w)")
      (auto simp: encryptFile_cases split: sum.splits)
qed

lemma decryptFile_log:
  "log (snd (decryptFile pf c password w)) =
     log w @ kdf_trace pf password (salt c)
       @ (case fst (deriveKey pf password (salt c) w) of
            Inl e \<Rightarrow> []
          | Inr key \<Rightarrow> [Decrypt (open_params c) key (ciphertext c)])"
proof -
  have l: "log (snd (deriveKey pf password (salt c) w)) = log w @ kdf_trace pf password (salt c)"
    by (simp add: deriveKey_log)
  show ?thesis
    using l by (cases "deriveKey pf password (salt c) w")
      (auto simp: decryptFile_cases split: sum.splits)
qed

lemma encryptFile_rng: "rng (snd (encryptFile pf file password metadata w)) i = rng w (i + 28)"
proof -
  have "rng (snd (deriveKey pf password (drawn_salt w) (after_draws w))) i = rng w (i + 28)"
    by (simp add: deriveKey_rng rng_after_draws)
  then show ?thesis
    by (cases "deriveKey pf password (drawn_salt w) (after_draws w)")
      (auto simp: encryptFile_cases split: sum.splits)
qed

section \<open>The small platform meets the cipher assumptions\<close>

lemma demo_aead_correct: "aead_correct demo_platform"
  by (auto simp: aead_correct_def demo_platform_def demo_encrypt_def demo_decrypt_def
        demo_tag_def comp_def split: if_splits)

lemma demo_aead_rejects: "aead_rejects_mismatched_keys demo_platform"
  by (auto simp: aead_rejects_mismatched_keys_def demo_platform_def demo_encrypt_def
        demo_decrypt_def demo_tag_def split: if_splits)

lemmas demo_defs =
  demo_platform_def demo_importKey_def demo_deriveKey_def demo_encrypt_def demo_decrypt_def
  demo_tag_def demo_world_def demo_world2_def demo_file_def demo_unreadable_def
  demo_container_def demo_response_def demo_client_def demo_wallet_def

lemmas run_defs =
  encryptFile_def encryptFile_try_unfold decryptFile_def decryptFile_try_def
  deriveKey_def deriveKey_try_def call_importKey_def call_deriveKey_def call_encrypt_def
  call_decrypt_def fileToArrayBuffer_def drawn_iv_def drawn_salt_def after_draws_def
  getRandomValues_def emit_def IV_LENGTH_def SALT_LENGTH_def TAG_LENGTH_def ALGORITHM_def
  KEY_LENGTH_def PBKDF2_ITERATIONS_def utf8_1_def upt_conv_Cons

lemma demo_encrypt_value:
  "fst (encryptFile demo_platform demo_file [0x70, 0x77] () demo_world) = Inr demo_container"
  by (simp add: run_defs demo_defs)

lemma demo_buffer_length: "28 \<le> length demo_buffer"
  by (simp add: demo_buffer_def)

section \<open>Round trip of encryption\<close>

text \<open>
  C1. Whenever the cipher opens what it sealed, and \<open>encryptFile\<close> returns a container
  for a file and a password, \<open>decryptFile\<close> on that container with the same password
  returns exactly the bytes of the file, in whatever state of the platform it is run.
  The plaintext is arbitrary, the empty one included.
\<close>

theorem C1_roundtrip:
  assumes "aead_correct pf"
    and "fst (encryptFile pf file password metadata w) = Inr container"
  shows "fst (decryptFile pf container password v) = Inr (blob_bytes file)"
proof -
  obtain key ct where k: "fst (deriveKey pf password (drawn_salt w) (after_draws w)) = Inr key"
    and e: "subtle_encrypt pf (seal_params w) key (blob_bytes file) = Inr ct"
    and c: "container = \<lparr> iv = drawn_iv w, salt = drawn_salt w, ciphertext = ct, authTag = None \<rparr>"
    using assms(2) unfolding encryptFile_Inr_iff by blast
  from assms(1) e have d: "subtle_decrypt pf (seal_params w) key ct = Inr (blob_bytes file)"
    unfolding aead_correct_def by blast
  have k': "fst (deriveKey pf password (drawn_salt w) v) = Inr key"
    using k deriveKey_fst_world [of pf password "drawn_salt w" v "after_draws w"] by simp
  have p: "open_params container = seal_params w"
    by (simp add: c open_params_def seal_params_def)
  show ?thesis
    using k' d p by (simp add: decryptFile_fst c)
qed

text \<open>The round trip on the small platform: sealed in one state, opened in another.\<close>

theorem C1_roundtrip_witness:
  "aead_correct demo_platform
   \<and> fst (encryptFile demo_platform demo_file [0x70, 0x77] () demo_world) = Inr demo_container
   \<and> fst (decryptFile demo_platform demo_container [0x70, 0x77] demo_world2)
       = Inr (blob_bytes demo_file)"
  using C1_roundtrip [OF demo_aead_correct demo_encrypt_value, of demo_world2]
    demo_aead_correct demo_encrypt_value by simp

section \<open>Framing\<close>

lemma split_parts_concat:
  assumes "28 \<le> length buffer"
  shows "uint8_slice buffer 0 12 @ uint8_slice buffer 12 28 @ uint8_slice_from buffer 28 = buffer"
proof -
  have a: "uint8_slice buffer 0 12 = take 12 buffer"
    using assms by (simp add: uint8_slice_take_drop)
  have b: "uint8_slice buffer 12 28 = take 16 (drop 12 buffer)"
    using assms by (simp add: uint8_slice_take_drop)
  have c: "uint8_slice_from buffer 28 = drop 28 buffer"
    using assms by (simp add: uint8_slice_from_def uint8_slice_take_drop)
  have "take 16 (drop 12 buffer) @ drop 28 buffer = drop 12 buffer"
    using append_take_drop_id [of 16 "drop 12 buffer"] by simp
  then show ?thesis
    using append_take_drop_id [of 12 buffer] by (simp add: a b c)
qed

text \<open>
  C2. A buffer of at least 28 bytes is split into a container, and combining that
  container gives the buffer back byte for byte. Nothing is asked of the bytes.
\<close>

theorem C2_format_stability:
  assumes "28 \<le> length buffer"
  shows "\<exists>c. splitEncryptedParts buffer = Inr c \<and> combineEncryptedParts c = Inr buffer"
  using assms split_parts_concat [OF assms]
  by (simp add: splitEncryptedParts_def combineEncryptedParts_concat IV_LENGTH_def SALT_LENGTH_def)

theorem C2_format_stability_witness:
  "28 \<le> length demo_buffer
   \<and> (\<exists>c. splitEncryptedParts demo_buffer = Inr c \<and> combineEncryptedParts c = Inr demo_buffer)"
  using demo_buffer_length C2_format_stability [OF demo_buffer_length] by simp

text \<open>
  C4. For a buffer of at least 28 bytes \<open>splitEncryptedParts\<close> always returns a
  container: its nonce is the bytes at offsets 0 to 11, its salt the bytes at offsets 12
  to 27, its ciphertext every byte from offset 28 on. It succeeds whatever the bytes
  are, so nothing about the ciphertext is checked here.
\<close>

theorem C4_split_offsets:
  assumes "28 \<le> length buffer"
  shows "\<exists>c. splitEncryptedParts buffer = Inr c
           \<and> iv c = map ((!) buffer) [0..<12]
           \<and> salt c = map ((!) buffer) [12..<28]
           \<and> ciphertext c = map ((!) buffer) [28..<length buffer]"
proof -
  have a: "uint8_slice buffer 0 12 = map ((!) buffer) [0..<12]"
    using assms by (intro uint8_slice_nth) simp_all
  have b: "uint8_slice buffer 12 28 = map ((!) buffer) [12..<28]"
    using assms by (intro uint8_slice_nth) simp_all
  have c: "uint8_slice_from buffer 28 = map ((!) buffer) [28..<length buffer]"
    unfolding uint8_slice_from_def using assms by (intro uint8_slice_nth) simp_all
  show ?thesis
    using assms a b c
    by (simp add: splitEncryptedParts_def IV_LENGTH_def SALT_LENGTH_def del: upt_rec_numeral)
qed

theorem C4_split_offsets_witness:
  "28 \<le> length demo_buffer
   \<and> (\<exists>c. splitEncryptedParts demo_buffer = Inr c
           \<and> iv c = map ((!) demo_buffer) [0..<12]
           \<and> salt c = map ((!) demo_buffer) [12..<28]
           \<and> ciphertext c = map ((!) demo_buffer) [28..<length demo_buffer])"
  using demo_buffer_length C4_split_offsets [OF demo_buffer_length] by simp

section \<open>Decrypting with another password\<close>

lemmas utf8_defs = utf8_1_def utf8_2_def utf8_3_def utf8_4_def replacement_utf8_def
  is_high_surrogate_def is_low_surrogate_def

text \<open>
  C5, as stated, fails: the one-unit passwords U+D800 and U+DC00 (unpaired surrogates)
  are distinct strings, \<open>TextEncoder_encode\<close> maps both to \<open>EF BF BD\<close>, so both
  derive the same key, and on a platform whose cipher refuses every mismatched key the container sealed
  under the first opens under the second.
\<close>

theorem C5_counterexample:
  "aead_rejects_mismatched_keys demo_platform
   \<and> [0xD800] \<noteq> [0xDC00 :: 16 word]
   \<and> fst (encryptFile demo_platform demo_file [0xD800] () demo_world) = Inr surrogate_container
   \<and> fst (decryptFile demo_platform surrogate_container [0xDC00] demo_world2)
       = Inr (blob_bytes demo_file)"
  using demo_aead_rejects
  by (simp add: run_defs demo_defs utf8_defs surrogate_container_def)

text \<open>
  C5, amended. Let the cipher refuse mismatched keys, let \<open>encryptFile\<close> return a
  container under the first password, and let the key derivation from the second
  password and the container's salt give a result other than the one from the first.
  Then \<open>decryptFile\<close> with the second password returns no plaintext: it fails with an
  \<open>EncryptionError\<close> of code \<open>DECRYPTION_FAILED\<close>.
\<close>

theorem C5_wrong_password:
  assumes "aead_rejects_mismatched_keys pf"
    and "fst (encryptFile pf file password1 metadata w) = Inr container"
    and "fst (deriveKey pf password2 (salt container) v)
           \<noteq> fst (deriveKey pf password1 (salt container) v)"
  shows "\<exists>msg. fst (decryptFile pf container password2 v)
           = Inl (JsError ''EncryptionError'' msg (Some ''DECRYPTION_FAILED''))"
proof -
  obtain key ct where k: "fst (deriveKey pf password1 (drawn_salt w) (after_draws w)) = Inr key"
    and e: "subtle_encrypt pf (seal_params w) key (blob_bytes file) = Inr ct"
    and c: "container = \<lparr> iv = drawn_iv w, salt = drawn_salt w, ciphertext = ct, authTag = None \<rparr>"
    using assms(2) unfolding encryptFile_Inr_iff by blast
  have k1: "fst (deriveKey pf password1 (salt container) v) = Inr key"
    using k deriveKey_fst_world [of pf password1 "drawn_salt w" v "after_draws w"]
    by (simp add: c)
  have p: "open_params container = seal_params w"
    by (simp add: c open_params_def seal_params_def)
  show ?thesis
  proof (cases "fst (deriveKey pf password2 (salt container) v)")
    case (Inl e2)
    then show ?thesis by (simp add: decryptFile_fst EncryptionError_def)
  next
    case (Inr key2)
    with assms(3) k1 have "key \<noteq> key2" by auto
    with assms(1) e obtain e3 where "subtle_decrypt pf (seal_params w) key2 ct = Inl e3"
      unfolding aead_rejects_mismatched_keys_def by blast
    with Inr p show ?thesis
      by (simp add: decryptFile_fst EncryptionError_def c)
  qed
qed

lemma demo_keys_differ:
  "fst (deriveKey demo_platform [0x70, 0x78] (salt demo_container) demo_world2)
     \<noteq> fst (deriveKey demo_platform [0x70, 0x77] (salt demo_container) demo_world2)"
  by (simp add: run_defs demo_defs)

theorem C5_wrong_password_witness:
  "aead_rejects_mismatched_keys demo_platform
   \<and> fst (encryptFile demo_platform demo_file [0x70, 0x77] () demo_world) = Inr demo_container
   \<and> fst (deriveKey demo_platform [0x70, 0x78] (salt demo_container) demo_world2)
        \<noteq> fst (deriveKey demo_platform [0x70, 0x77] (salt demo_container) demo_world2)
   \<and> (\<exists>msg. fst (decryptFile demo_platform demo_container [0x70, 0x78] demo_world2)
           = Inl (JsError ''EncryptionError'' msg (Some ''DECRYPTION_FAILED'')))"
  using C5_wrong_password [OF demo_aead_rejects demo_encrypt_value demo_keys_differ]
    demo_aead_rejects demo_encrypt_value demo_keys_differ by simp

section \<open>Events of encryption and decryption\<close>

lemma filter_kdf_trace: "filter is_kdf_event (kdf_trace pf password s) = kdf_trace pf password s"
  by (simp add: kdf_trace_def split: sum.splits)

lemma filter_random_kdf_trace: "filter is_random_event (kdf_trace pf password s) = []"
  by (simp add: kdf_trace_def split: sum.splits)

lemma cipher_keys_Nil [simp]: "cipher_keys [] = []"
  by (simp add: cipher_keys_def List.map_filter_simps)

lemma cipher_keys_Cons [simp]:
  "cipher_keys (e # es) =
     (case cipher_key e of None \<Rightarrow> cipher_keys es | Some k \<Rightarrow> k # cipher_keys es)"
  by (simp add: cipher_keys_def List.map_filter_simps split: option.splits)

lemma cipher_keys_kdf_trace: "cipher_keys (kdf_trace pf password s) = []"
  by (simp add: kdf_trace_def split: sum.splits)

lemma cipher_keys_append: "cipher_keys (xs @ ys) = cipher_keys xs @ cipher_keys ys"
  by (simp add: cipher_keys_def map_filter_def)

lemma encryptFile_new_events:
  "new_events w (snd (encryptFile pf file password metadata w)) =
     [GetRandomValues 12, GetRandomValues 16] @ kdf_trace pf password (drawn_salt w)
       @ (case fst (deriveKey pf password (drawn_salt w) (after_draws w)) of
            Inl e \<Rightarrow> []
          | Inr key \<Rightarrow>
              ReadFile # (if blob_readable file
                          then [Encrypt (seal_params w) key (blob_bytes file)] else []))"
  by (rule new_events_append) (rule encryptFile_log)

lemma decryptFile_new_events:
  "new_events w (snd (decryptFile pf c password w)) =
     kdf_trace pf password (salt c)
       @ (case fst (deriveKey pf password (salt c) w) of
            Inl e \<Rightarrow> []
          | Inr key \<Rightarrow> [Decrypt (open_params c) key (ciphertext c)])"
  by (rule new_events_append) (rule decryptFile_log)

lemma encryptFile_kdf_events:
  "filter is_kdf_event (new_events w (snd (encryptFile pf file password metadata w)))
     = kdf_trace pf password (drawn_salt w)"
  by (simp add: encryptFile_new_events filter_kdf_trace split: sum.splits)

lemma decryptFile_kdf_events:
  "filter is_kdf_event (new_events w (snd (decryptFile pf c password w)))
     = kdf_trace pf password (salt c)"
  by (simp add: decryptFile_new_events filter_kdf_trace split: sum.splits)

lemma encryptFile_cipher_keys:
  "fst (encryptFile pf file password metadata w) = Inr c \<Longrightarrow>
   \<exists>key. fst (deriveKey pf password (drawn_salt w) (after_draws w)) = Inr key
     \<and> cipher_keys (new_events w (snd (encryptFile pf file password metadata w))) = [key]"
  by (auto simp: encryptFile_Inr_iff encryptFile_new_events cipher_keys_append
        cipher_keys_kdf_trace)

lemma decryptFile_cipher_keys:
  "fst (deriveKey pf password (salt c) w) = Inr key \<Longrightarrow>
   cipher_keys (new_events w (snd (decryptFile pf c password w))) = [key]"
  by (simp add: decryptFile_new_events cipher_keys_append cipher_keys_kdf_trace)

section \<open>Key-derivation parameters\<close>

text \<open>
  C6. The key-derivation requests of \<open>encryptFile\<close> are exactly \<open>kdf_trace\<close> for the
  password and the salt just drawn; those of \<open>decryptFile\<close> are exactly \<open>kdf_trace\<close>
  for the password and the container's salt: the same import of the encoded password and
  the same request for PBKDF2, 100,000 iterations, SHA-256 and a 256-bit AES-GCM key.
  The derived key depends on the password and the salt only, not on the state it is
  derived in. When encryption returns a container, its salt is the drawn one, and
  decryption under the same password hands the cipher the key encryption used.
\<close>

theorem C6_kdf_parameters:
  "filter is_kdf_event (new_events w (snd (encryptFile pf file password metadata w)))
     = kdf_trace pf password (drawn_salt w)
   \<and> filter is_kdf_event (new_events v (snd (decryptFile pf c password v)))
     = kdf_trace pf password (salt c)
   \<and> fst (deriveKey pf password s w) = fst (deriveKey pf password s v)
   \<and> (fst (encryptFile pf file password metadata w) = Inr c \<longrightarrow>
        salt c = drawn_salt w
        \<and> cipher_keys (new_events v (snd (decryptFile pf c password v)))
            = cipher_keys (new_events w (snd (encryptFile pf file password metadata w))))"
proof (intro conjI impI)
  assume ok: "fst (encryptFile pf file password metadata w) = Inr c"
  then show s: "salt c = drawn_salt w"
    by (auto simp: encryptFile_Inr_iff)
  obtain key where k: "fst (deriveKey pf password (drawn_salt w) (after_draws w)) = Inr key"
    and ks: "cipher_keys (new_events w (snd (encryptFile pf file password metadata w))) = [key]"
    using encryptFile_cipher_keys [OF ok] by blast
  have "fst (deriveKey pf password (salt c) v) = Inr key"
    using k deriveKey_fst_world [of pf password "drawn_salt w" v "after_draws w"] s by simp
  then show "cipher_keys (new_events v (snd (decryptFile pf c password v)))
            = cipher_keys (new_events w (snd (encryptFile pf file password metadata w)))"
    using ks by (simp add: decryptFile_cipher_keys)
qed (simp_all add: encryptFile_kdf_events decryptFile_kdf_events deriveKey_fst_world [of pf password s w v])

lemma demo_kdf_trace:
  "kdf_trace demo_platform [0x70, 0x77] s =
     [ImportKey ''raw'' [0x70, 0x77] ''PBKDF2'',
      DeriveKey \<lparr> kdf_name = ''PBKDF2'', kdf_salt = s, kdf_iterations = 100000,
                  kdf_hash = ''SHA-256'' \<rparr> [0x70, 0x77]
        \<lparr> key_name = ''AES-GCM'', key_length = 256 \<rparr>]"
  by (simp add: kdf_trace_def demo_platform_def demo_importKey_def utf8_1_def)

text \<open>On the small platform both paths make the same two requests and use the same key.\<close>

theorem C6_kdf_parameters_witness:
  "fst (encryptFile demo_platform demo_file [0x70, 0x77] () demo_world) = Inr demo_container
   \<and> filter is_kdf_event
        (new_events demo_world (snd (encryptFile demo_platform demo_file [0x70, 0x77] () demo_world)))
       = [ImportKey ''raw'' [0x70, 0x77] ''PBKDF2'',
          DeriveKey \<lparr> kdf_name = ''PBKDF2'', kdf_salt = salt demo_container,
                      kdf_iterations = 100000, kdf_hash = ''SHA-256'' \<rparr> [0x70, 0x77]
            \<lparr> key_name = ''AES-GCM'', key_length = 256 \<rparr>]
   \<and> filter is_kdf_event
        (new_events demo_world2 (snd (decryptFile demo_platform demo_container [0x70, 0x77] demo_world2)))
       = [ImportKey ''raw'' [0x70, 0x77] ''PBKDF2'',
          DeriveKey \<lparr> kdf_name = ''PBKDF2'', kdf_salt = salt demo_container,
                      kdf_iterations = 100000, kdf_hash = ''SHA-256'' \<rparr> [0x70, 0x77]
            \<lparr> key_name = ''AES-GCM'', key_length = 256 \<rparr>]
   \<and> cipher_keys
        (new_events demo_world2 (snd (decryptFile demo_platform demo_container [0x70, 0x77] demo_world2)))
       = cipher_keys
        (new_events demo_world (snd (encryptFile demo_platform demo_file [0x70, 0x77] () demo_world)))"
  using C6_kdf_parameters [of demo_world demo_platform demo_file "[0x70, 0x77]" "()" demo_world2
      demo_container "[]"] demo_encrypt_value
  by (simp add: demo_kdf_trace)

section \<open>Error identities\<close>

lemma encryptFile_Inl_identity:
  "fst (encryptFile pf file password metadata w) = Inl e \<Longrightarrow>
   identity e = Some (''EncryptionError'', Some ''ENCRYPTION_FAILED'')"
  by (auto simp: encryptFile_cases EncryptionError_def split: sum.splits prod.splits if_splits)

lemma decryptFile_Inl_identity:
  "fst (decryptFile pf c password w) = Inl e \<Longrightarrow>
   identity e = Some (''EncryptionError'', Some ''DECRYPTION_FAILED'')"
  by (auto simp: decryptFile_fst EncryptionError_def split: sum.splits)

lemma splitEncryptedParts_Inl_identity:
  "splitEncryptedParts buffer = Inl e \<Longrightarrow>
   identity e = Some (''EncryptionError'', Some ''INVALID_ENCRYPTED_DATA'')"
  by (auto simp: splitEncryptedParts_def EncryptionError_def split: if_splits)

text \<open>
  C7. Every error of \<open>encryptFile\<close> is an \<open>EncryptionError\<close> with code
  \<open>ENCRYPTION_FAILED\<close>, every error of \<open>decryptFile\<close> an \<open>EncryptionError\<close> with
  code \<open>DECRYPTION_FAILED\<close>, every error of \<open>splitEncryptedParts\<close> an
  \<open>EncryptionError\<close> with code \<open>INVALID_ENCRYPTED_DATA\<close>; so errors of two different
  kinds never have the same class-and-code identity.
\<close>

theorem C7_error_identities:
  "(fst (encryptFile pf file password metadata w) = Inl e1 \<longrightarrow>
      identity e1 = Some (''EncryptionError'', Some ''ENCRYPTION_FAILED''))
   \<and> (fst (decryptFile pf c password2 v) = Inl e2 \<longrightarrow>
      identity e2 = Some (''EncryptionError'', Some ''DECRYPTION_FAILED''))
   \<and> (splitEncryptedParts buffer = Inl e3 \<longrightarrow>
      identity e3 = Some (''EncryptionError'', Some ''INVALID_ENCRYPTED_DATA''))
   \<and> (fst (encryptFile pf file password metadata w) = Inl e1
        \<and> fst (decryptFile pf c password2 v) = Inl e2
        \<and> splitEncryptedParts buffer = Inl e3 \<longrightarrow>
      identity e1 \<noteq> identity e2 \<and> identity e1 \<noteq> identity e3 \<and> identity e2 \<noteq> identity e3)"
proof (intro conjI impI)
  assume "fst (encryptFile pf file password metadata w) = Inl e1
        \<and> fst (decryptFile pf c password2 v) = Inl e2
        \<and> splitEncryptedParts buffer = Inl e3"
  then have a: "identity e1 = Some (''EncryptionError'', Some ''ENCRYPTION_FAILED'')"
    and b: "identity e2 = Some (''EncryptionError'', Some ''DECRYPTION_FAILED'')"
    and c: "identity e3 = Some (''EncryptionError'', Some ''INVALID_ENCRYPTED_DATA'')"
    by (auto dest: encryptFile_Inl_identity decryptFile_Inl_identity
          splitEncryptedParts_Inl_identity)
  show "identity e1 \<noteq> identity e2" by (simp add: a b)
  show "identity e1 \<noteq> identity e3" by (simp add: a c)
  show "identity e2 \<noteq> identity e3" by (simp add: b c)
qed (simp_all add: encryptFile_Inl_identity decryptFile_Inl_identity
       splitEncryptedParts_Inl_identity)

lemma demo_encrypt_fails:
  "fst (encryptFile demo_platform demo_unreadable [0x70, 0x77] () demo_world)
     = Inl (JsError ''EncryptionError'' ''Failed to encrypt file: Failed to read file''
              (Some ''ENCRYPTION_FAILED''))"
  by (simp add: run_defs demo_defs EncryptionError_def message_or_def)

lemma demo_decrypt_fails:
  "fst (decryptFile demo_platform demo_container [0x70, 0x78] demo_world2)
     = Inl (JsError ''EncryptionError'' ''Failed to decrypt file: ''
              (Some ''DECRYPTION_FAILED''))"
  by (simp add: run_defs demo_defs EncryptionError_def message_or_def)

lemma demo_split_fails:
  "splitEncryptedParts [1, 2, 3]
     = Inl (JsError ''EncryptionError'' ''Invalid encrypted data: too short''
              (Some ''INVALID_ENCRYPTED_DATA''))"
  by (simp add: splitEncryptedParts_def EncryptionError_def IV_LENGTH_def SALT_LENGTH_def)

text \<open>
  The three kinds on the small platform: an unreadable file, a wrong password, a
  three-byte buffer.
\<close>

theorem C7_error_identities_witness:
  "fst (encryptFile demo_platform demo_unreadable [0x70, 0x77] () demo_world)
     = Inl (JsError ''EncryptionError'' ''Failed to encrypt file: Failed to read file''
              (Some ''ENCRYPTION_FAILED''))
   \<and> fst (decryptFile demo_platform demo_container [0x70, 0x78] demo_world2)
     = Inl (JsError ''EncryptionError'' ''Failed to decrypt file: ''
              (Some ''DECRYPTION_FAILED''))
   \<and> splitEncryptedParts [1, 2, 3]
     = Inl (JsError ''EncryptionError'' ''Invalid encrypted data: too short''
              (Some ''INVALID_ENCRYPTED_DATA''))
   \<and> identity (JsError ''EncryptionError'' ''Failed to encrypt file: Failed to read file''
              (Some ''ENCRYPTION_FAILED''))
      \<noteq> identity (JsError ''EncryptionError'' ''Failed to decrypt file: ''
              (Some ''DECRYPTION_FAILED''))
   \<and> identity (JsError ''EncryptionError'' ''Failed to encrypt file: Failed to read file''
              (Some ''ENCRYPTION_FAILED''))
      \<noteq> identity (JsError ''EncryptionError'' ''Invalid encrypted data: too short''
              (Some ''INVALID_ENCRYPTED_DATA''))
   \<and> identity (JsError ''EncryptionError'' ''Failed to decrypt file: ''
              (Some ''DECRYPTION_FAILED''))
      \<noteq> identity (JsError ''EncryptionError'' ''Invalid encrypted data: too short''
              (Some ''INVALID_ENCRYPTED_DATA''))"
  using C7_error_identities [of demo_platform demo_unreadable "[0x70, 0x77]" "()" demo_world
      "JsError ''EncryptionError'' ''Failed to encrypt file: Failed to read file''
              (Some ''ENCRYPTION_FAILED'')"
      demo_container "[0x70, 0x78]" demo_world2
      "JsError ''EncryptionError'' ''Failed to decrypt file: '' (Some ''DECRYPTION_FAILED'')"
      "[1, 2, 3]"
      "JsError ''EncryptionError'' ''Invalid encrypted data: too short''
              (Some ''INVALID_ENCRYPTED_DATA'')"]
    demo_encrypt_fails demo_decrypt_fails demo_split_fails
  by simp

section \<open>Nonce and salt\<close>

text \<open>
  C8. Every run of \<open>encryptFile\<close> starts with two draws from the random source, of
  12 and of 16 bytes, and makes no other draw; it leaves the source 28 bytes further, so
  the next run draws other bytes of it. When it returns a container, the nonce is the
  first 12 bytes the source handed out and the salt the next 16, whatever file, password
  and metadata the caller passed: none of the arguments carries a nonce or a salt.
\<close>

theorem C8_nonce_salt_generation:
  "take 2 (new_events w (snd (encryptFile pf file password metadata w)))
     = [GetRandomValues 12, GetRandomValues 16]
   \<and> filter is_random_event (new_events w (snd (encryptFile pf file password metadata w)))
     = [GetRandomValues 12, GetRandomValues 16]
   \<and> rng (snd (encryptFile pf file password metadata w)) i = rng w (i + 28)
   \<and> (fst (encryptFile pf file password metadata w) = Inr c \<longrightarrow>
        iv c = map (rng w) [0..<12] \<and> salt c = map (rng w) [12..<28]
        \<and> length (iv c) = 12 \<and> length (salt c) = 16)"
proof (intro conjI impI)
  show "filter is_random_event (new_events w (snd (encryptFile pf file password metadata w)))
     = [GetRandomValues 12, GetRandomValues 16]"
    by (simp add: encryptFile_new_events filter_random_kdf_trace split: sum.splits)
next
  assume ok: "fst (encryptFile pf file password metadata w) = Inr c"
  then show "iv c = map (rng w) [0..<12]"
    by (auto simp: encryptFile_Inr_iff drawn_iv_def)
  from ok show "salt c = map (rng w) [12..<28]"
    by (auto simp: encryptFile_Inr_iff drawn_salt_def)
  from ok show "length (iv c) = 12"
    by (auto simp: encryptFile_Inr_iff)
  from ok show "length (salt c) = 16"
    by (auto simp: encryptFile_Inr_iff)
qed (simp_all add: encryptFile_new_events encryptFile_rng)

theorem C8_nonce_salt_generation_witness:
  "fst (encryptFile demo_platform demo_file [0x70, 0x77] () demo_world) = Inr demo_container
   \<and> iv demo_container = map (rng demo_world) [0..<12]
   \<and> salt demo_container = map (rng demo_world) [12..<28]
   \<and> length (iv demo_container) = 12 \<and> length (salt demo_container) = 16"
  using C8_nonce_salt_generation [of demo_world demo_platform demo_file "[0x70, 0x77]" "()" 0
      demo_container] demo_encrypt_value
  by simp

text \<open>
  C9. Take two runs of \<open>encryptFile\<close> on the same file and password that both return
  a container. If the random source hands the two runs different nonce bytes, the two
  nonces differ and so do the serialized containers; if it hands them different salt
  bytes, the two salts differ and so do the serialized containers.
\<close>

theorem C9_uniqueness:
  assumes "fst (encryptFile pf file password metadata w1) = Inr c1"
    and "fst (encryptFile pf file password metadata w2) = Inr c2"
  shows "(map (rng w1) [0..<12] \<noteq> map (rng w2) [0..<12] \<longrightarrow>
            iv c1 \<noteq> iv c2 \<and> combineEncryptedParts c1 \<noteq> combineEncryptedParts c2)
       \<and> (map (rng w1) [12..<28] \<noteq> map (rng w2) [12..<28] \<longrightarrow>
            salt c1 \<noteq> salt c2 \<and> combineEncryptedParts c1 \<noteq> combineEncryptedParts c2)"
proof -
  have i1: "iv c1 = drawn_iv w1" and s1: "salt c1 = drawn_salt w1"
    using assms(1) by (auto simp: encryptFile_Inr_iff)
  have i2: "iv c2 = drawn_iv w2" and s2: "salt c2 = drawn_salt w2"
    using assms(2) by (auto simp: encryptFile_Inr_iff)
  have eq: "combineEncryptedParts c1 = combineEncryptedParts c2 \<Longrightarrow>
              iv c1 = iv c2 \<and> salt c1 = salt c2"
  proof -
    assume "combineEncryptedParts c1 = combineEncryptedParts c2"
    then have "drawn_iv w1 @ drawn_salt w1 @ ciphertext c1
                 = drawn_iv w2 @ drawn_salt w2 @ ciphertext c2"
      by (simp add: combineEncryptedParts_concat i1 i2 s1 s2)
    then have "drawn_iv w1 = drawn_iv w2 \<and> drawn_salt w1 @ ciphertext c1 = drawn_salt w2 @ ciphertext c2"
      by (intro conjI; simp)
    then show ?thesis by (simp add: i1 i2 s1 s2)
  qed
  show ?thesis
    using eq by (auto simp: i1 i2 s1 s2 drawn_iv_def drawn_salt_def)
qed

lemma demo_encrypt_value2:
  "fst (encryptFile demo_platform demo_file [0x70, 0x77] () demo_world2) = Inr demo_container2"
  by (simp add: run_defs demo_defs demo_container2_def)

theorem C9_uniqueness_witness:
  "fst (encryptFile demo_platform demo_file [0x70, 0x77] () demo_world) = Inr demo_container
   \<and> fst (encryptFile demo_platform demo_file [0x70, 0x77] () demo_world2) = Inr demo_container2
   \<and> map (rng demo_world) [0..<12] \<noteq> map (rng demo_world2) [0..<12]
   \<and> map (rng demo_world) [12..<28] \<noteq> map (rng demo_world2) [12..<28]
   \<and> iv demo_container \<noteq> iv demo_container2
   \<and> salt demo_container \<noteq> salt demo_container2
   \<and> combineEncryptedParts demo_container \<noteq> combineEncryptedParts demo_container2"
proof -
  have a: "map (rng demo_world) [0..<12] \<noteq> map (rng demo_world2) [0..<12]"
    by (simp add: demo_world_def demo_world2_def upt_conv_Cons)
  have b: "map (rng demo_world) [12..<28] \<noteq> map (rng demo_world2) [12..<28]"
    by (simp add: demo_world_def demo_world2_def upt_conv_Cons)
  show ?thesis
    using C9_uniqueness [OF demo_encrypt_value demo_encrypt_value2] a b
      demo_encrypt_value demo_encrypt_value2 by simp
qed

section \<open>Minimum length\<close>

lemma splitEncryptedParts_short:
  "length buffer < 28 \<Longrightarrow> splitEncryptedParts buffer = Inl too_short"
  by (simp add: splitEncryptedParts_def too_short_def EncryptionError_def IV_LENGTH_def
        SALT_LENGTH_def)

lemma splitEncryptedParts_Inl_iff:
  "(\<exists>e. splitEncryptedParts buffer = Inl e) \<longleftrightarrow> length buffer < 28"
  by (simp add: splitEncryptedParts_def IV_LENGTH_def SALT_LENGTH_def)

lemma splitEncryptedParts_exact:
  "length buffer = 28 \<Longrightarrow> \<exists>c. splitEncryptedParts buffer = Inr c \<and> ciphertext c = []"
  by (simp add: splitEncryptedParts_def IV_LENGTH_def SALT_LENGTH_def uint8_slice_from_def
        uint8_slice_def)

lemma storage_download_log:
  "log (snd (storage_download st pf cid w)) =
     log w @ [FetchGet ((if st_provider st = ipfs then st_ipfsGateway st
                         else st_arweaveGateway st) @ cid)]"
  by (simp add: storage_download_def downloadFromIPFS_def downloadFromArweave_def
        call_fetch_get_def await_def split: sum.splits)

lemma download_short:
  assumes "validateDownloadOptions options = Inr ()"
    and "fst (storage_download (cl_storage cl) pf
               (extractCIDFromFileId (the (dl_fileId options))) w) = Inr buffer"
    and "length buffer < 28"
  shows "download cl pf options w =
           (Inl too_short,
            snd (storage_download (cl_storage cl) pf
                   (extractCIDFromFileId (the (dl_fileId options))) w))"
proof -
  obtain r w1 where s: "storage_download (cl_storage cl) pf
               (extractCIDFromFileId (the (dl_fileId options))) w = (r, w1)"
    by (cases "storage_download (cl_storage cl) pf
               (extractCIDFromFileId (the (dl_fileId options))) w")
  with assms(2) have r: "r = Inr buffer" by simp
  show ?thesis
    by (simp add: download_def assms(1) Let_def s r splitEncryptedParts_short [OF assms(3)])
qed

text \<open>
  C3. \<open>splitEncryptedParts\<close> fails exactly on the buffers shorter than 28 bytes, and
  then with the \<open>EncryptionError\<close> of code \<open>INVALID_ENCRYPTED_DATA\<close>; a buffer of
  exactly 28 bytes gives a container with empty ciphertext. The function takes the
  buffer alone and calls nothing of the platform. In \<open>download\<close>, when the options are
  valid and the storage returns a buffer shorter than 28 bytes, the call fails with that
  error and has made no call to the cipher or the key derivation.
\<close>

theorem C3_minimum_length:
  "((\<exists>e. splitEncryptedParts buffer = Inl e) \<longleftrightarrow> length buffer < 28)
   \<and> (length buffer < 28 \<longrightarrow>
        splitEncryptedParts buffer
          = Inl (JsError ''EncryptionError'' ''Invalid encrypted data: too short''
                   (Some ''INVALID_ENCRYPTED_DATA'')))
   \<and> (length buffer = 28 \<longrightarrow> (\<exists>c. splitEncryptedParts buffer = Inr c \<and> ciphertext c = []))
   \<and> (validateDownloadOptions options = Inr ()
        \<and> fst (storage_download (cl_storage cl) pf
                 (extractCIDFromFileId (the (dl_fileId options))) w) = Inr buffer
        \<and> length buffer < 28 \<longrightarrow>
        fst (download cl pf options w)
          = Inl (JsError ''EncryptionError'' ''Invalid encrypted data: too short''
                   (Some ''INVALID_ENCRYPTED_DATA''))
        \<and> filter is_crypto_event (new_events w (snd (download cl pf options w))) = [])"
proof (intro conjI impI)
  show "(\<exists>e. splitEncryptedParts buffer = Inl e) \<longleftrightarrow> length buffer < 28"
    by (rule splitEncryptedParts_Inl_iff)
next
  assume "length buffer < 28"
  then show "splitEncryptedParts buffer
          = Inl (JsError ''EncryptionError'' ''Invalid encrypted data: too short''
                   (Some ''INVALID_ENCRYPTED_DATA''))"
    using splitEncryptedParts_short [of buffer] by (simp add: too_short_def)
next
  assume "length buffer = 28"
  then show "\<exists>c. splitEncryptedParts buffer = Inr c \<and> ciphertext c = []"
    by (rule splitEncryptedParts_exact)
next
  assume h: "validateDownloadOptions options = Inr ()
        \<and> fst (storage_download (cl_storage cl) pf
                 (extractCIDFromFileId (the (dl_fileId options))) w) = Inr buffer
        \<and> length buffer < 28"
  then have h1: "validateDownloadOptions options = Inr ()"
    and h2: "fst (storage_download (cl_storage cl) pf
                 (extractCIDFromFileId (the (dl_fileId options))) w) = Inr buffer"
    and h3: "length buffer < 28"
    by blast+
  have d: "download cl pf options w =
           (Inl too_short,
            snd (storage_download (cl_storage cl) pf
                   (extractCIDFromFileId (the (dl_fileId options))) w))"
    by (rule download_short [OF h1 h2 h3])
  show "fst (download cl pf options w)
          = Inl (JsError ''EncryptionError'' ''Invalid encrypted data: too short''
                   (Some ''INVALID_ENCRYPTED_DATA''))"
    by (simp add: d too_short_def)
  show "filter is_crypto_event (new_events w (snd (download cl pf options w))) = []"
    by (simp add: d new_events_def storage_download_log)
qed

lemma demo_download_valid: "validateDownloadOptions demo_download_options = Inr ()"
  by (simp add: validateDownloadOptions_def demo_download_options_def js_not_def
        wallet_missing_def demo_wallet_def)

lemma demo_storage_download:
  "fst (storage_download (cl_storage demo_client) demo_platform
          (extractCIDFromFileId (the (dl_fileId demo_download_options))) demo_world)
     = Inr [1, 2, 3]"
  by (simp add: storage_download_def downloadFromIPFS_def call_fetch_get_def demo_defs
        demo_download_options_def extractCIDFromFileId_def)

theorem C3_minimum_length_witness:
  "length [1, 2, 3 :: byte] < 28
   \<and> splitEncryptedParts [1, 2, 3]
        = Inl (JsError ''EncryptionError'' ''Invalid encrypted data: too short''
                 (Some ''INVALID_ENCRYPTED_DATA''))
   \<and> length demo_buffer28 = 28
   \<and> (\<exists>c. splitEncryptedParts demo_buffer28 = Inr c \<and> ciphertext c = [])
   \<and> validateDownloadOptions demo_download_options = Inr ()
   \<and> fst (storage_download (cl_storage demo_client) demo_platform
            (extractCIDFromFileId (the (dl_fileId demo_download_options))) demo_world)
        = Inr [1, 2, 3]
   \<and> fst (download demo_client demo_platform demo_download_options demo_world)
        = Inl (JsError ''EncryptionError'' ''Invalid encrypted data: too short''
                 (Some ''INVALID_ENCRYPTED_DATA''))
   \<and> filter is_crypto_event
        (new_events demo_world
           (snd (download demo_client demo_platform demo_download_options demo_world))) = []"
proof -
  have a: "length [1, 2, 3 :: byte] < 28" by simp
  have b: "length demo_buffer28 = 28" by (simp add: demo_buffer28_def)
  show ?thesis
    using C3_minimum_length [of "[1, 2, 3]" demo_download_options demo_client demo_platform
        demo_world]
      C3_minimum_length [of demo_buffer28 demo_download_options demo_client demo_platform
        demo_world]
      a b demo_download_valid demo_storage_download
    by simp
qed

section \<open>Empty passwords at the client\<close>

text \<open>
  C10, as stated, fails for \<open>download\<close>: with an empty file identifier and an empty
  password, both well-typed strings, the first check fires and the error code is
  \<open>MISSING_FILE_ID\<close>, not \<open>MISSING_PASSWORD\<close>.
\<close>

theorem C10_counterexample:
  "dl_password empty_download_options = Some []
   \<and> fst (download demo_client demo_platform empty_download_options demo_world)
       = Inl (JsError ''ValidationError'' ''File ID is required'' (Some ''MISSING_FILE_ID''))
   \<and> err_code (JsError ''ValidationError'' ''File ID is required'' (Some ''MISSING_FILE_ID''))
       \<noteq> Some ''MISSING_PASSWORD''"
  by (simp add: download_def validateDownloadOptions_def empty_download_options_def
        js_not_def ValidationError_def)

text \<open>
  C10, amended. An \<open>upload\<close> whose password is the empty string fails with a
  \<open>ValidationError\<close> and leaves the state as it was: no call to the cipher, the key
  derivation or the storage gateway has been made, nor any other platform call;
  the code is \<open>MISSING_PASSWORD\<close> when the file is present; and the outcome is the one
  of the same call with the password absent. The same holds for \<open>download\<close>, the code
  being \<open>MISSING_PASSWORD\<close> when the file identifier is a non-empty string.
\<close>

theorem C10_empty_password:
  "(up_password uoptions = Some [] \<longrightarrow>
      (\<exists>msg code. upload cl pf uoptions w = (Inl (JsError ''ValidationError'' msg (Some code)), w))
      \<and> (up_file uoptions \<noteq> None \<longrightarrow>
           upload cl pf uoptions w
             = (Inl (JsError ''ValidationError'' ''Password is required''
                       (Some ''MISSING_PASSWORD'')), w))
      \<and> filter is_crypto_event (new_events w (snd (upload cl pf uoptions w))) = []
      \<and> filter is_storage_event (new_events w (snd (upload cl pf uoptions w))) = []
      \<and> upload cl pf uoptions w = upload cl pf (uoptions\<lparr>up_password := None\<rparr>) w)
   \<and> (dl_password doptions = Some [] \<longrightarrow>
      (\<exists>msg code. download cl pf doptions v = (Inl (JsError ''ValidationError'' msg (Some code)), v))
      \<and> ((\<exists>f. dl_fileId doptions = Some f \<and> f \<noteq> []) \<longrightarrow>
           download cl pf doptions v
             = (Inl (JsError ''ValidationError'' ''Password is required''
                       (Some ''MISSING_PASSWORD'')), v))
      \<and> filter is_crypto_event (new_events v (snd (download cl pf doptions v))) = []
      \<and> filter is_storage_event (new_events v (snd (download cl pf doptions v))) = []
      \<and> download cl pf doptions v = download cl pf (doptions\<lparr>dl_password := None\<rparr>) v)"
  by (auto simp: upload_def download_def validateUploadOptions_def validateDownloadOptions_def
        js_not_def ValidationError_def new_events_def)

theorem C10_empty_password_witness:
  "up_password demo_upload_options = Some [] \<and> up_file demo_upload_options \<noteq> None
   \<and> upload demo_client demo_platform demo_upload_options demo_world
        = (Inl (JsError ''ValidationError'' ''Password is required''
                  (Some ''MISSING_PASSWORD'')), demo_world)
   \<and> dl_password (demo_download_options\<lparr>dl_password := Some []\<rparr>) = Some []
   \<and> (\<exists>f. dl_fileId (demo_download_options\<lparr>dl_password := Some []\<rparr>) = Some f \<and> f \<noteq> [])
   \<and> download demo_client demo_platform (demo_download_options\<lparr>dl_password := Some []\<rparr>)
          demo_world2
        = (Inl (JsError ''ValidationError'' ''Password is required''
                  (Some ''MISSING_PASSWORD'')), demo_world2)"
proof -
  have a: "up_password demo_upload_options = Some [] \<and> up_file demo_upload_options \<noteq> None"
    by (simp add: demo_upload_options_def)
  have b: "dl_password (demo_download_options\<lparr>dl_password := Some []\<rparr>) = Some []"
    by simp
  have c: "\<exists>f. dl_fileId (demo_download_options\<lparr>dl_password := Some []\<rparr>) = Some f \<and> f \<noteq> []"
    by (simp add: demo_download_options_def)
  show ?thesis
    using C10_empty_password [of demo_upload_options demo_client demo_platform demo_world
        "demo_download_options\<lparr>dl_password := Some []\<rparr>" demo_world2] a b c
    by simp
qed

end
